theory Spec2Isabelle
  imports Complex_Main
begin

section \<open>Numbers and the linear-algebra provider\<close>

text \<open>
  The package computes on \<^verbatim>\<open>float32\<close>. The embedding reads every \<^verbatim>\<open>float32\<close> as a
  real number: rounding, overflow to an infinity, NaN and the sign of a zero are not
  represented. Control flow, comparisons and the order of array writes are those of the
  source. The concrete inputs evaluated below have components that \<^verbatim>\<open>float32\<close>
  holds exactly, the orientation of the box \<open>long_OBB\<close> apart.
\<close>

type_synonym float32 = real

text \<open>\<^verbatim>\<open>mgl32.Vec3\<close> is \<^verbatim>\<open>[3]float32\<close>; \<^verbatim>\<open>Point3\<close> is an alias of it.\<close>

datatype Vec3 = Vec3 (v0: float32) (v1: float32) (v2: float32)

type_synonym Point3 = Vec3

text \<open>Indexing \<^verbatim>\<open>v[i]\<close>; the source only indexes with 0, 1 and 2.\<close>

definition Vec3_idx :: "Vec3 \<Rightarrow> nat \<Rightarrow> float32" where
  "Vec3_idx v i = (if i = 0 then v0 v else if i = 1 then v1 v else v2 v)"

text \<open>
  Modelled from the spec: the vector and quaternion primitives (add, sub, scalar multiply,
  dot, cross, length, normalize, quaternion rotate, identity quaternion) belong to the
  external linear-algebra provider \<^verbatim>\<open>mgl32\<close>, whose code is not part of the repository.
  They are given their standard component-wise definitions. \<^verbatim>\<open>Normalize\<close> multiplies by
  \<^verbatim>\<open>1 / Len\<close>; on the zero vector the provider divides by zero, which the embedding
  does not represent (HOL gives \<open>1 / 0 = 0\<close>).
\<close>

definition Vec3_Add :: "Vec3 \<Rightarrow> Vec3 \<Rightarrow> Vec3" where
  "Vec3_Add a b = Vec3 (v0 a + v0 b) (v1 a + v1 b) (v2 a + v2 b)"

definition Vec3_Sub :: "Vec3 \<Rightarrow> Vec3 \<Rightarrow> Vec3" where
  "Vec3_Sub a b = Vec3 (v0 a - v0 b) (v1 a - v1 b) (v2 a - v2 b)"

definition Vec3_Mul :: "Vec3 \<Rightarrow> float32 \<Rightarrow> Vec3" where
  "Vec3_Mul a c = Vec3 (v0 a * c) (v1 a * c) (v2 a * c)"

definition Vec3_Dot :: "Vec3 \<Rightarrow> Vec3 \<Rightarrow> float32" where
  "Vec3_Dot a b = v0 a * v0 b + v1 a * v1 b + v2 a * v2 b"

definition Vec3_Cross :: "Vec3 \<Rightarrow> Vec3 \<Rightarrow> Vec3" where
  "Vec3_Cross a b =
     Vec3 (v1 a * v2 b - v2 a * v1 b) (v2 a * v0 b - v0 a * v2 b) (v0 a * v1 b - v1 a * v0 b)"

definition Vec3_Len :: "Vec3 \<Rightarrow> float32" where
  "Vec3_Len a = sqrt (v0 a * v0 a + v1 a * v1 a + v2 a * v2 a)"

definition Vec3_Normalize :: "Vec3 \<Rightarrow> Vec3" where
  "Vec3_Normalize a = (let l = 1 / Vec3_Len a in Vec3 (v0 a * l) (v1 a * l) (v2 a * l))"

datatype Quat = Quat (W: float32) (V: Vec3)

definition QuatIdent :: Quat where
  "QuatIdent = Quat 1 (Vec3 0 0 0)"

definition Quat_Rotate :: "Quat \<Rightarrow> Vec3 \<Rightarrow> Vec3" where
  "Quat_Rotate q v =
     (let cross = Vec3_Cross (V q) v
      in Vec3_Add (Vec3_Add v (Vec3_Mul cross (2 * W q))) (Vec3_Cross (Vec3_Mul (V q) 2) cross))"

definition X3 :: Vec3 where "X3 = Vec3 1 0 0"
definition Y3 :: Vec3 where "Y3 = Vec3 0 1 0"
definition Z3 :: Vec3 where "Z3 = Vec3 0 0 1"

subsection \<open>math.go\<close>

text \<open>\<^verbatim>\<open>math.MaxFloat32\<close> is \<open>2^127 * (2 - 2^-23)\<close>.\<close>

definition maxFloat32 :: float32 where
  "maxFloat32 = 2 ^ 128 - 2 ^ 104"

text \<open>\<^verbatim>\<open>math.SmallestNonzeroFloat32\<close> is \<open>2^-149\<close>.\<close>

definition SmallestNonzeroFloat32 :: float32 where
  "SmallestNonzeroFloat32 = 1 / 2 ^ 149"

definition sqrt32 :: "float32 \<Rightarrow> float32" where
  "sqrt32 v = sqrt v"

definition max32 :: "float32 \<Rightarrow> float32 \<Rightarrow> float32" where
  "max32 a b = (if a > b then a else b)"

definition min32 :: "float32 \<Rightarrow> float32 \<Rightarrow> float32" where
  "min32 a b = (if a < b then a else b)"

definition abs32 :: "float32 \<Rightarrow> float32" where
  "abs32 x = (if x < 0 then - x else if x = 0 then 0 else x)"

definition cmp :: "float32 \<Rightarrow> float32 \<Rightarrow> bool" where
  "cmp a b =
     (let diff = abs32 (a - b)
      in if diff \<le> 5 / 1000 then True
         else (let a' = abs32 a; b' = abs32 b; largest = max32 a' b'
               in if diff \<le> largest * (1 / 100000) then True else False))"

text \<open>
  \<^verbatim>\<open>nonzero\<close> returns \<^verbatim>\<open>copysign(SmallestNonzeroFloat32, v)\<close> when \<^verbatim>\<open>v == 0\<close>. The reals
  have one zero, read as the positive zero of \<^verbatim>\<open>float32\<close>.
\<close>

definition nonzero :: "float32 \<Rightarrow> float32" where
  "nonzero v = (if v \<noteq> 0 then v else SmallestNonzeroFloat32)"

section \<open>Intervals\<close>

record Interval =
  Interval_Min :: float32
  Interval_Max :: float32

definition Overlaps :: "Interval \<Rightarrow> Interval \<Rightarrow> bool" where
  "Overlaps i i2 = ((Interval_Min i2 \<le> Interval_Max i) \<and> (Interval_Min i \<le> Interval_Max i2))"

definition GetOverlap :: "Interval \<Rightarrow> Interval \<Rightarrow> float32" where
  "GetOverlap i i2 =
     (if \<not> Overlaps i i2 then 0
      else min32 (Interval_Max i) (Interval_Max i2) - max32 (Interval_Min i) (Interval_Min i2))"

text \<open>
  The loop shared by \<^verbatim>\<open>AABB.ProjectOntoAxis\<close> and \<^verbatim>\<open>OBB.ProjectOntoAxis\<close>: the interval
  starts at the projection of \<^verbatim>\<open>vertex[0]\<close> and is widened by \<^verbatim>\<open>vertex[1]\<close> to
  \<^verbatim>\<open>vertex[7]\<close> in turn.
\<close>

definition project_step :: "Vec3 \<Rightarrow> Vec3 list \<Rightarrow> nat \<Rightarrow> Interval \<Rightarrow> Interval" where
  "project_step axis vertex i iv =
     (let projection = Vec3_Dot axis (vertex ! i);
          iv1 = (if projection < Interval_Min iv then iv\<lparr>Interval_Min := projection\<rparr> else iv);
          iv2 = (if projection > Interval_Max iv1 then iv1\<lparr>Interval_Max := projection\<rparr> else iv1)
      in iv2)"

definition project_vertices :: "Vec3 \<Rightarrow> Vec3 list \<Rightarrow> Interval" where
  "project_vertices axis vertex =
     (let m = Vec3_Dot axis (vertex ! 0);
          iv = \<lparr>Interval_Min = m, Interval_Max = m\<rparr>
      in fold (project_step axis vertex) [1, 2, 3, 4, 5, 6, 7] iv)"

section \<open>AABB\<close>

text \<open>
  The struct carries its scratch array \<^verbatim>\<open>corners [8]Point3\<close>. A composite literal
  \<^verbatim>\<open>AABB{Position: p, Size: s}\<close> leaves it zeroed. Methods with a pointer receiver that
  write the array return the updated receiver next to their result.
\<close>

record AABB =
  AABB_Position :: Point3
  AABB_Size :: Vec3
  AABB_corners :: "Point3 list"

definition AABB_lit :: "Point3 \<Rightarrow> Vec3 \<Rightarrow> AABB" where
  "AABB_lit p s = \<lparr>AABB_Position = p, AABB_Size = s, AABB_corners = replicate 8 (Vec3 0 0 0)\<rparr>"

definition AABB_Min :: "AABB \<Rightarrow> Point3" where
  "AABB_Min a =
     (let p1 = Vec3_Add (AABB_Position a) (AABB_Size a);
          p2 = Vec3_Sub (AABB_Position a) (AABB_Size a)
      in Vec3 (min32 (v0 p1) (v0 p2)) (min32 (v1 p1) (v1 p2)) (min32 (v2 p1) (v2 p2)))"

definition AABB_Max :: "AABB \<Rightarrow> Point3" where
  "AABB_Max a =
     (let p1 = Vec3_Add (AABB_Position a) (AABB_Size a);
          p2 = Vec3_Sub (AABB_Position a) (AABB_Size a)
      in Vec3 (max32 (v0 p1) (v0 p2)) (max32 (v1 p1) (v1 p2)) (max32 (v2 p1) (v2 p2)))"

text \<open>
  \<^verbatim>\<open>AABB.Corners\<close>: the source assigns all eight points to \<^verbatim>\<open>a.corners[0]\<close>, one
  after the other, and returns \<^verbatim>\<open>a.corners[:]\<close>.
\<close>

definition AABB_Corners :: "AABB \<Rightarrow> Point3 list \<times> AABB" where
  "AABB_Corners a =
     (let mn = AABB_Min a; mx = AABB_Max a;
          c1 = (AABB_corners a)[0 := Vec3 (v0 mn) (v1 mx) (v2 mx)];
          c2 = c1[0 := Vec3 (v0 mn) (v1 mx) (v2 mn)];
          c3 = c2[0 := Vec3 (v0 mn) (v1 mn) (v2 mx)];
          c4 = c3[0 := Vec3 (v0 mn) (v1 mn) (v2 mn)];
          c5 = c4[0 := Vec3 (v0 mx) (v1 mx) (v2 mx)];
          c6 = c5[0 := Vec3 (v0 mx) (v1 mx) (v2 mn)];
          c7 = c6[0 := Vec3 (v0 mx) (v1 mn) (v2 mx)];
          c8 = c7[0 := Vec3 (v0 mx) (v1 mn) (v2 mn)]
      in (c8, a\<lparr>AABB_corners := c8\<rparr>))"

definition aabbAxes :: "Vec3 list" where
  "aabbAxes = [X3, Y3, Z3]"

definition aabbNormals :: "Vec3 list" where
  "aabbNormals = [Vec3 (-1) 0 0, Vec3 1 0 0, Vec3 0 (-1) 0, Vec3 0 1 0, Vec3 0 0 (-1), Vec3 0 0 1]"

definition AABB_Axes :: "AABB \<Rightarrow> Vec3 list" where
  "AABB_Axes a = aabbAxes"

definition AABB_Normals :: "AABB \<Rightarrow> Vec3 list" where
  "AABB_Normals a = aabbNormals"

definition AABB_ContainsPoint3 :: "AABB \<Rightarrow> Point3 \<Rightarrow> bool" where
  "AABB_ContainsPoint3 a pt =
     (let mn = AABB_Min a; mx = AABB_Max a
      in if v0 pt < v0 mn \<or> v1 pt < v1 mn \<or> v2 pt < v2 mn then False
         else if v0 pt > v0 mx \<or> v1 pt > v1 mx \<or> v2 pt > v2 mx then False
         else True)"

definition AABB_IntersectsAABB :: "AABB \<Rightarrow> AABB \<Rightarrow> bool" where
  "AABB_IntersectsAABB a b =
     (let aMin = AABB_Min a; aMax = AABB_Max a; bMin = AABB_Min b; bMax = AABB_Max b
      in (v0 aMin \<le> v0 bMax \<and> v0 aMax \<ge> v0 bMin) \<and>
         (v1 aMin \<le> v1 bMax \<and> v1 aMax \<ge> v1 bMin) \<and>
         (v2 aMin \<le> v2 bMax \<and> v2 aMax \<ge> v2 bMin))"

definition AABB_ProjectOntoAxis :: "AABB \<Rightarrow> Vec3 \<Rightarrow> Interval \<times> AABB" where
  "AABB_ProjectOntoAxis a axis =
     (let (vertex, a') = AABB_Corners a
      in (project_vertices axis vertex, a'))"

text \<open>
  The eight corner points the specification names: every combination of position plus or
  minus halfSize per component. This definition follows the specification's words and is
  used only to compare with the code.
\<close>

definition spec_corner_points :: "AABB \<Rightarrow> Point3 list" where
  "spec_corner_points a =
     (let p = AABB_Position a; s = AABB_Size a
      in [Vec3 (v0 p + sx) (v1 p + sy) (v2 p + sz).
            sx \<leftarrow> [v0 s, - v0 s], sy \<leftarrow> [v1 s, - v1 s], sz \<leftarrow> [v2 s, - v2 s]])"

definition spec_projection :: "AABB \<Rightarrow> Vec3 \<Rightarrow> Interval" where
  "spec_projection a v =
     \<lparr>Interval_Min = Min (set (map (Vec3_Dot v) (spec_corner_points a))),
      Interval_Max = Max (set (map (Vec3_Dot v) (spec_corner_points a)))\<rparr>"

text \<open>\<^verbatim>\<open>AABB.MTVAABB\<close>: one pass of the loop over the three axes, then the function.\<close>

definition MTVAABB_step ::
  "AABB \<Rightarrow> AABB \<Rightarrow> nat \<Rightarrow> Vec3 \<times> float32 \<times> float32 \<Rightarrow> Vec3 \<times> float32 \<times> float32" where
  "MTVAABB_step a b i st =
     (case st of (axis, minOverlap, sign) \<Rightarrow>
        (let aint = \<lparr>Interval_Min = Vec3_idx (AABB_Min a) i, Interval_Max = Vec3_idx (AABB_Max a) i\<rparr>;
             bint = \<lparr>Interval_Min = Vec3_idx (AABB_Min b) i, Interval_Max = Vec3_idx (AABB_Max b) i\<rparr>;
             overlap = GetOverlap aint bint
         in if overlap < minOverlap then
              (if i = 0 then
                 (X3, overlap, if v0 (AABB_Position a) < v0 (AABB_Position b) then - 1 else 1)
               else if i = 1 then
                 (Y3, overlap, if v1 (AABB_Position a) < v1 (AABB_Position b) then - 1 else 1)
               else if i = 2 then
                 (Z3, overlap, if v2 (AABB_Position a) < v2 (AABB_Position b) then - 1 else 1)
               else (axis, overlap, sign))
            else (axis, minOverlap, sign)))"

definition AABB_MTVAABB :: "AABB \<Rightarrow> AABB \<Rightarrow> bool \<times> Vec3" where
  "AABB_MTVAABB a b =
     (let aMin = AABB_Min a; aMax = AABB_Max a; bMin = AABB_Min b; bMax = AABB_Max b
      in if \<not> ((v0 aMin \<le> v0 bMax \<and> v0 aMax \<ge> v0 bMin) \<and>
                (v1 aMin \<le> v1 bMax \<and> v1 aMax \<ge> v1 bMin) \<and>
                (v2 aMin \<le> v2 bMax \<and> v2 aMax \<ge> v2 bMin))
         then (False, Vec3 0 0 0)
         else (case fold (MTVAABB_step a b) [0, 1, 2] (Vec3 0 0 0, maxFloat32, 1) of
                 (axis, minOverlap, sign) \<Rightarrow>
                   if minOverlap \<le> 0 then (False, Vec3 0 0 0)
                   else (True, Vec3_Mul axis (sign * minOverlap))))"

section \<open>Rays and raycast results\<close>

record Ray3 =
  Ray3_Origin :: Point3
  Ray3_Direction :: Vec3

definition Ray3_Point :: "Ray3 \<Rightarrow> float32 \<Rightarrow> Point3" where
  "Ray3_Point r d = Vec3_Add (Ray3_Origin r) (Vec3_Mul (Ray3_Direction r) d)"

datatype RaycastFail =
    RaycastFailUnknown
  | RaycastFailOutsideBounds
  | RaycastFailTargetBehindRayOrigin
  | RaycastFailPlaneFacesAwayFromRay

record RaycastResult =
  RaycastResult_Point :: Point3
  RaycastResult_Normal :: Vec3
  RaycastResult_Distance :: float32
  RaycastResult_Fail :: RaycastFail

text \<open>The zero value of \<^verbatim>\<open>var res RaycastResult\<close>.\<close>

definition res0 :: RaycastResult where
  "res0 = \<lparr>RaycastResult_Point = Vec3 0 0 0, RaycastResult_Normal = Vec3 0 0 0,
           RaycastResult_Distance = 0, RaycastResult_Fail = RaycastFailUnknown\<rparr>"

text \<open>
  The slab quantities shared by \<^verbatim>\<open>AABB.Raycast\<close> and \<^verbatim>\<open>OBB.Raycast\<close>: from the six
  candidate distances \<^verbatim>\<open>t\<close>, the entry distance \<^verbatim>\<open>tmin\<close> and the exit distance
  \<^verbatim>\<open>tmax\<close>.
\<close>

definition slab_tmin :: "float32 list \<Rightarrow> float32" where
  "slab_tmin t = max32 (max32 (min32 (t ! 0) (t ! 1)) (min32 (t ! 2) (t ! 3))) (min32 (t ! 4) (t ! 5))"

definition slab_tmax :: "float32 list \<Rightarrow> float32" where
  "slab_tmax t = min32 (min32 (max32 (t ! 0) (t ! 1)) (max32 (t ! 2) (t ! 3))) (max32 (t ! 4) (t ! 5))"

text \<open>The six candidate distances of \<^verbatim>\<open>AABB.Raycast\<close>.\<close>

definition AABB_Raycast_t :: "AABB \<Rightarrow> Ray3 \<Rightarrow> float32 list" where
  "AABB_Raycast_t a ray =
     (let amin = AABB_Min a; amax = AABB_Max a;
          org = Ray3_Origin ray; dir = Ray3_Direction ray
      in [(v0 amin - v0 org) / nonzero (v0 dir),
          (v0 amax - v0 org) / nonzero (v0 dir),
          (v1 amin - v1 org) / nonzero (v1 dir),
          (v1 amax - v1 org) / nonzero (v1 dir),
          (v2 amin - v2 org) / nonzero (v2 dir),
          (v2 amax - v2 org) / nonzero (v2 dir)])"

text \<open>
  The closing loop of both box raycasts: every index whose distance compares close to the
  chosen one overwrites the normal, so the last such index wins.
\<close>

definition AABB_normal_step :: "float32 list \<Rightarrow> Vec3 list \<Rightarrow> nat \<Rightarrow> RaycastResult \<Rightarrow> RaycastResult" where
  "AABB_normal_step t normals i res =
     (if cmp (RaycastResult_Distance res) (t ! i)
      then res\<lparr>RaycastResult_Normal := normals ! i\<rparr> else res)"

definition AABB_Raycast :: "AABB \<Rightarrow> Ray3 \<Rightarrow> RaycastResult \<times> bool" where
  "AABB_Raycast a ray =
     (let t = AABB_Raycast_t a ray; tmin = slab_tmin t; tmax = slab_tmax t
      in if tmax < 0 then (res0\<lparr>RaycastResult_Fail := RaycastFailTargetBehindRayOrigin\<rparr>, False)
         else if tmin > tmax then (res0\<lparr>RaycastResult_Fail := RaycastFailOutsideBounds\<rparr>, False)
         else (let res1 = res0\<lparr>RaycastResult_Distance := tmin\<rparr>;
                   res2 = (if tmin < 0 then res1\<lparr>RaycastResult_Distance := tmax\<rparr> else res1);
                   res3 = res2\<lparr>RaycastResult_Point := Ray3_Point ray (RaycastResult_Distance res2)\<rparr>;
                   normals = [Vec3 (-1) 0 0, Vec3 1 0 0, Vec3 0 (-1) 0, Vec3 0 1 0,
                              Vec3 0 0 (-1), Vec3 0 0 1]
               in (fold (AABB_normal_step t normals) [0, 1, 2, 3, 4, 5] res3, True)))"

section \<open>Plane3\<close>

record Plane3 =
  Plane3_Normal :: Vec3
  Plane3_Distance :: float32

definition Plane3_Raycast :: "Plane3 \<Rightarrow> Ray3 \<Rightarrow> RaycastResult \<times> bool" where
  "Plane3_Raycast p ray =
     (let nd = Vec3_Dot (Ray3_Direction ray) (Plane3_Normal p);
          pn = Vec3_Dot (Ray3_Origin ray) (Plane3_Normal p)
      in if nd \<ge> 0 then (res0\<lparr>RaycastResult_Fail := RaycastFailPlaneFacesAwayFromRay\<rparr>, False)
         else (let t = - (Plane3_Distance p + pn) / nd
               in if t \<ge> 0 then
                    (res0\<lparr>RaycastResult_Distance := t,
                          RaycastResult_Point := Vec3_Add (Ray3_Origin ray) (Vec3_Mul (Ray3_Direction ray) t),
                          RaycastResult_Normal := Vec3_Normalize (Plane3_Normal p)\<rparr>, True)
                  else (res0\<lparr>RaycastResult_Fail := RaycastFailTargetBehindRayOrigin\<rparr>, False)))"

section \<open>Sphere\<close>

record Sphere =
  Sphere_Position :: Point3
  Sphere_Radius :: float32

definition Sphere_Raycast :: "Sphere \<Rightarrow> Ray3 \<Rightarrow> RaycastResult \<times> bool" where
  "Sphere_Raycast s ray =
     (let e = Vec3_Sub (Sphere_Position s) (Ray3_Origin ray);
          rSquared = Sphere_Radius s * Sphere_Radius s;
          eMagnitudeSquared = Vec3_Dot e e;
          a = Vec3_Dot e (Ray3_Direction ray);
          bSquared = eMagnitudeSquared - (a * a);
          f = sqrt32 (abs32 (rSquared - bSquared));
          t = a - f
      in if rSquared - bSquared < 0 then (res0\<lparr>RaycastResult_Fail := RaycastFailOutsideBounds\<rparr>, False)
         else (let t' = (if eMagnitudeSquared < rSquared then a + f else t);
                   pt = Vec3_Add (Ray3_Origin ray) (Vec3_Mul (Ray3_Direction ray) t')
               in (res0\<lparr>RaycastResult_Distance := t',
                         RaycastResult_Point := pt,
                         RaycastResult_Normal := Vec3_Normalize (Vec3_Sub pt (Sphere_Position s))\<rparr>, True)))"

section \<open>OBB\<close>

text \<open>
  The struct carries two scratch arrays, \<^verbatim>\<open>axes [3]Vec3\<close> and \<^verbatim>\<open>corners [8]Point3\<close>.
  A method that writes one returns the updated receiver next to its result. On the
  identity orientation the methods build a temporary \<^verbatim>\<open>AABB{Position, Size}\<close>, call
  its method and leave the receiver as it is.
\<close>

record OBB =
  OBB_Position :: Point3
  OBB_Size :: Vec3
  OBB_Orientation :: Quat
  OBB_axes :: "Vec3 list"
  OBB_corners :: "Point3 list"

definition OBB_lit :: "Point3 \<Rightarrow> Vec3 \<Rightarrow> Quat \<Rightarrow> OBB" where
  "OBB_lit p s q =
     \<lparr>OBB_Position = p, OBB_Size = s, OBB_Orientation = q,
      OBB_axes = replicate 3 (Vec3 0 0 0), OBB_corners = replicate 8 (Vec3 0 0 0)\<rparr>"

definition OBB_Axes :: "OBB \<Rightarrow> Vec3 list \<times> OBB" where
  "OBB_Axes o' =
     (if OBB_Orientation o' = QuatIdent
      then (AABB_Axes (AABB_lit (OBB_Position o') (OBB_Size o')), o')
      else (let a1 = (OBB_axes o')[0 := Vec3_Normalize (Quat_Rotate (OBB_Orientation o') X3)];
                a2 = a1[1 := Vec3_Normalize (Quat_Rotate (OBB_Orientation o') Y3)];
                a3 = a2[2 := Vec3_Normalize (Quat_Rotate (OBB_Orientation o') Z3)]
            in (a3, o'\<lparr>OBB_axes := a3\<rparr>)))"

definition OBB_Corners :: "OBB \<Rightarrow> Point3 list \<times> OBB" where
  "OBB_Corners o' =
     (if OBB_Orientation o' = QuatIdent
      then (fst (AABB_Corners (AABB_lit (OBB_Position o') (OBB_Size o'))), o')
      else (let p = OBB_Position o'; s = OBB_Size o'; q = OBB_Orientation o';
                c1 = (OBB_corners o')[0 := Quat_Rotate q (Vec3 (v0 p + v0 s) (v1 p + v1 s) (v2 p + v2 s))];
                c2 = c1[1 := Quat_Rotate q (Vec3 (v0 p + v0 s) (v1 p + v1 s) (v2 p - v2 s))];
                c3 = c2[2 := Quat_Rotate q (Vec3 (v0 p + v0 s) (v1 p - v1 s) (v2 p + v2 s))];
                c4 = c3[3 := Quat_Rotate q (Vec3 (v0 p + v0 s) (v1 p - v1 s) (v2 p - v2 s))];
                c5 = c4[4 := Quat_Rotate q (Vec3 (v0 p - v0 s) (v1 p + v1 s) (v2 p + v2 s))];
                c6 = c5[5 := Quat_Rotate q (Vec3 (v0 p - v0 s) (v1 p + v1 s) (v2 p - v2 s))];
                c7 = c6[6 := Quat_Rotate q (Vec3 (v0 p - v0 s) (v1 p - v1 s) (v2 p + v2 s))];
                c8 = c7[7 := Quat_Rotate q (Vec3 (v0 p - v0 s) (v1 p - v1 s) (v2 p - v2 s))]
            in (c8, o'\<lparr>OBB_corners := c8\<rparr>)))"

definition OBB_Normals :: "OBB \<Rightarrow> Vec3 list" where
  "OBB_Normals o' =
     (if OBB_Orientation o' = QuatIdent
      then AABB_Normals (AABB_lit (OBB_Position o') (OBB_Size o'))
      else [Vec3_Normalize (Quat_Rotate (OBB_Orientation o') (Vec3 (-1) 0 0)),
            Vec3_Normalize (Quat_Rotate (OBB_Orientation o') (Vec3 1 0 0)),
            Vec3_Normalize (Quat_Rotate (OBB_Orientation o') (Vec3 0 (-1) 0)),
            Vec3_Normalize (Quat_Rotate (OBB_Orientation o') (Vec3 0 1 0)),
            Vec3_Normalize (Quat_Rotate (OBB_Orientation o') (Vec3 0 0 (-1))),
            Vec3_Normalize (Quat_Rotate (OBB_Orientation o') (Vec3 0 0 1))])"

fun OBB_contains_loop :: "Vec3 \<Rightarrow> Vec3 list \<Rightarrow> Vec3 \<Rightarrow> nat list \<Rightarrow> bool" where
  "OBB_contains_loop dir axes sz [] = True"
| "OBB_contains_loop dir axes sz (i # rest) =
     (let distance = Vec3_Dot dir (axes ! i)
      in if distance > Vec3_idx sz i then False
         else if distance < - Vec3_idx sz i then False
         else OBB_contains_loop dir axes sz rest)"

definition OBB_ContainsPoint3 :: "OBB \<Rightarrow> Point3 \<Rightarrow> bool \<times> OBB" where
  "OBB_ContainsPoint3 o' pt =
     (if OBB_Orientation o' = QuatIdent
      then (AABB_ContainsPoint3 (AABB_lit (OBB_Position o') (OBB_Size o')) pt, o')
      else (let dir = Vec3_Sub pt (OBB_Position o');
                (axes, o'') = OBB_Axes o'
            in (OBB_contains_loop dir axes (OBB_Size o') [0, 1, 2], o'')))"

definition OBB_ProjectOntoAxis :: "OBB \<Rightarrow> Vec3 \<Rightarrow> Interval \<times> OBB" where
  "OBB_ProjectOntoAxis o' axis =
     (if OBB_Orientation o' = QuatIdent
      then (fst (AABB_ProjectOntoAxis (AABB_lit (OBB_Position o') (OBB_Size o')) axis), o')
      else (let (vertex, o'') = OBB_Corners o'
            in (project_vertices axis vertex, o'')))"

text \<open>
  \<^verbatim>\<open>OBB.Raycast\<close> has no branch for the identity orientation. Its guard is an
  \<^verbatim>\<open>if / else if\<close> chain: only the first component of \<^verbatim>\<open>f\<close> that compares close to
  zero is looked at. \<open>None\<close> is the early return with \<^verbatim>\<open>RaycastFailOutsideBounds\<close>,
  \<open>Some f'\<close> the array \<^verbatim>\<open>f\<close> the function goes on with. A component of \<^verbatim>\<open>f\<close> the chain
  leaves at zero is then divided by; the source gets an infinity or NaN there, which the
  embedding does not represent.
\<close>

definition OBB_Raycast_guard :: "float32 list \<Rightarrow> float32 list \<Rightarrow> Vec3 \<Rightarrow> float32 list option" where
  "OBB_Raycast_guard f e sz =
     (if cmp (f ! 0) 0 then
        (if - (e ! 0) - v0 sz > 0 \<or> - (e ! 0) + v0 sz < 0 then None
         else Some (f[0 := nonzero (f ! 0)]))
      else if cmp (f ! 1) 0 then
        (if - (e ! 1) - v1 sz > 0 \<or> - (e ! 1) + v1 sz < 0 then None
         else Some (f[1 := nonzero (f ! 1)]))
      else if cmp (f ! 2) 0 then
        (if - (e ! 2) - v2 sz > 0 \<or> - (e ! 2) + v2 sz < 0 then None
         else Some (f[2 := nonzero (f ! 2)]))
      else Some f)"

definition OBB_normal_step :: "float32 list \<Rightarrow> Vec3 list \<Rightarrow> nat \<Rightarrow> RaycastResult \<Rightarrow> RaycastResult" where
  "OBB_normal_step t normals i res =
     (if cmp (RaycastResult_Distance res) (t ! i)
      then res\<lparr>RaycastResult_Normal := Vec3_Normalize (normals ! i)\<rparr> else res)"

definition OBB_Raycast :: "OBB \<Rightarrow> Ray3 \<Rightarrow> (RaycastResult \<times> bool) \<times> OBB" where
  "OBB_Raycast o' ray =
     (let (axes, o'') = OBB_Axes o';
          f = [Vec3_Dot (axes ! 0) (Ray3_Direction ray),
               Vec3_Dot (axes ! 1) (Ray3_Direction ray),
               Vec3_Dot (axes ! 2) (Ray3_Direction ray)];
          p = Vec3_Sub (OBB_Position o') (Ray3_Origin ray);
          e = [Vec3_Dot (axes ! 0) p, Vec3_Dot (axes ! 1) p, Vec3_Dot (axes ! 2) p];
          sz = OBB_Size o'
      in case OBB_Raycast_guard f e sz of
           None \<Rightarrow> ((res0\<lparr>RaycastResult_Fail := RaycastFailOutsideBounds\<rparr>, False), o'')
         | Some f' \<Rightarrow>
            (let t = [(e ! 0 + v0 sz) / f' ! 0, (e ! 0 - v0 sz) / f' ! 0,
                      (e ! 1 + v1 sz) / f' ! 1, (e ! 1 - v1 sz) / f' ! 1,
                      (e ! 2 + v2 sz) / f' ! 2, (e ! 2 - v2 sz) / f' ! 2];
                 tmin = slab_tmin t; tmax = slab_tmax t
             in if tmax < 0 then
                  ((res0\<lparr>RaycastResult_Fail := RaycastFailTargetBehindRayOrigin\<rparr>, False), o'')
                else if tmin > tmax then
                  ((res0\<lparr>RaycastResult_Fail := RaycastFailOutsideBounds\<rparr>, False), o'')
                else
                  (let res1 = res0\<lparr>RaycastResult_Distance := tmin\<rparr>;
                       res2 = (if tmin < 0 then res1\<lparr>RaycastResult_Distance := tmax\<rparr> else res1);
                       res3 = res2\<lparr>RaycastResult_Point := Ray3_Point ray (RaycastResult_Distance res2)\<rparr>;
                       normals = [axes ! 0, Vec3_Mul (axes ! 0) (- 1),
                                  axes ! 1, Vec3_Mul (axes ! 1) (- 1),
                                  axes ! 2, Vec3_Mul (axes ! 2) (- 1)]
                   in ((fold (OBB_normal_step t normals) [0, 1, 2, 3, 4, 5] res3, True), o''))))"

section \<open>The Box3 interface and the separating-axis test\<close>

text \<open>
  \<^verbatim>\<open>Box3\<close> is implemented by \<^verbatim>\<open>*AABB\<close> and \<^verbatim>\<open>*OBB\<close>. An interface value is a pointer:
  the boxes live in a store, and \<^verbatim>\<open>IntersectsBox3\<close> takes two addresses, which may be
  the same. A method call through the interface reads the box at the address and writes
  the updated receiver back. A returned slice is modelled by its contents at the return:
  \<^verbatim>\<open>Axes\<close> writes only the \<^verbatim>\<open>axes\<close> array and \<^verbatim>\<open>Corners\<close> only the \<^verbatim>\<open>corners\<close>
  array, \<^verbatim>\<open>IntersectsBox3\<close> calls \<^verbatim>\<open>Axes\<close> before its loops only, and a second call on
  the same box writes the same values.
\<close>

datatype Box3 = Box3_AABB AABB | Box3_OBB OBB

type_synonym store = "nat \<Rightarrow> Box3"

definition Box3_Axes :: "Box3 \<Rightarrow> Vec3 list \<times> Box3" where
  "Box3_Axes x =
     (case x of
        Box3_AABB a \<Rightarrow> (AABB_Axes a, Box3_AABB a)
      | Box3_OBB o' \<Rightarrow> (case OBB_Axes o' of (r, o'') \<Rightarrow> (r, Box3_OBB o'')))"

definition Box3_ProjectOntoAxis :: "Box3 \<Rightarrow> Vec3 \<Rightarrow> Interval \<times> Box3" where
  "Box3_ProjectOntoAxis x axis =
     (case x of
        Box3_AABB a \<Rightarrow> (case AABB_ProjectOntoAxis a axis of (r, a') \<Rightarrow> (r, Box3_AABB a'))
      | Box3_OBB o' \<Rightarrow> (case OBB_ProjectOntoAxis o' axis of (r, o'') \<Rightarrow> (r, Box3_OBB o'')))"

definition call_Axes :: "nat \<Rightarrow> store \<Rightarrow> Vec3 list \<times> store" where
  "call_Axes p h = (case Box3_Axes (h p) of (r, x) \<Rightarrow> (r, h(p := x)))"

definition call_ProjectOntoAxis :: "nat \<Rightarrow> Vec3 \<Rightarrow> store \<Rightarrow> Interval \<times> store" where
  "call_ProjectOntoAxis p axis h = (case Box3_ProjectOntoAxis (h p) axis of (r, x) \<Rightarrow> (r, h(p := x)))"

definition OverlapOnAxis :: "nat \<Rightarrow> nat \<Rightarrow> Vec3 \<Rightarrow> store \<Rightarrow> bool \<times> store" where
  "OverlapOnAxis a b axis h =
     (case call_ProjectOntoAxis a axis h of (i1, h1) \<Rightarrow>
        (case call_ProjectOntoAxis b axis h1 of (i2, h2) \<Rightarrow> (Overlaps i1 i2, h2)))"

text \<open>
  How a loop of \<^verbatim>\<open>IntersectsBox3\<close> ends: it runs to its end, it returns a value from
  the function, or an index is out of range and the program panics.
\<close>

datatype loop_exit = Fell_through | Returned bool | Index_panic

text \<open>The first loop, over \<^verbatim>\<open>j\<close> from 0 to \<^verbatim>\<open>len(axesb)\<close>.\<close>

function loop_axesb :: "nat \<Rightarrow> nat \<Rightarrow> Vec3 list \<Rightarrow> nat \<Rightarrow> store \<Rightarrow> loop_exit \<times> store" where
  "loop_axesb a b axesb j h =
     (if j < length axesb then
        (case OverlapOnAxis a b (axesb ! j) h of (ok, h') \<Rightarrow>
           if \<not> ok then (Returned False, h')
           else loop_axesb a b axesb (j + 1) h')
      else (Fell_through, h))"
  by pat_completeness auto
termination
  by (relation "measure (\<lambda>(a, b, axesb, j, h). length axesb - j)") auto

text \<open>
  The inner loop of the second nest, as written:
  \<^verbatim>\<open>for j := 0; i < len(axesb); i++\<close>. Its condition and its increment are on the
  outer variable \<^verbatim>\<open>i\<close>; \<^verbatim>\<open>j\<close> stays what it was set to. The loop hands the value of
  \<^verbatim>\<open>i\<close> it stopped at back to the outer loop. \<^verbatim>\<open>axesa[i]\<close> is read under the bound of
  \<^verbatim>\<open>axesb\<close>, so the read can be out of range.
\<close>

function loop_cross ::
  "nat \<Rightarrow> nat \<Rightarrow> Vec3 list \<Rightarrow> Vec3 list \<Rightarrow> nat \<Rightarrow> nat \<Rightarrow> store \<Rightarrow> loop_exit \<times> nat \<times> store" where
  "loop_cross a b axesa axesb j i h =
     (if i < length axesb then
        (if j < length axesb \<and> i < length axesa then
           (case OverlapOnAxis a b (Vec3_Cross (axesb ! j) (axesa ! i)) h of (ok, h') \<Rightarrow>
              if \<not> ok then (Returned False, i, h')
              else loop_cross a b axesa axesb j (i + 1) h')
         else (Index_panic, i, h))
      else (Fell_through, i, h))"
  by pat_completeness auto
termination
  by (relation "measure (\<lambda>(a, b, axesa, axesb, j, i, h). length axesb - i)") auto

lemma loop_cross_index: "i \<le> fst (snd (loop_cross a b axesa axesb j i h))"
proof (induction a b axesa axesb j i h rule: loop_cross.induct)
  case (1 a b axesa axesb j i h)
  show ?case
  proof (cases "i < length axesb \<and> j < length axesb \<and> i < length axesa")
    case True
    obtain ok h' where ov: "OverlapOnAxis a b (Vec3_Cross (axesb ! j) (axesa ! i)) h = (ok, h')"
      by (cases "OverlapOnAxis a b (Vec3_Cross (axesb ! j) (axesa ! i)) h")
    show ?thesis
    proof (cases ok)
      case True
      from "1.IH"[OF _ _ ov[symmetric]] \<open>i < length axesb \<and> j < length axesb \<and> i < length axesa\<close> True
      have "i + 1 \<le> fst (snd (loop_cross a b axesa axesb j (i + 1) h'))" by simp
      with ov True \<open>i < length axesb \<and> j < length axesb \<and> i < length axesa\<close>
      show ?thesis by (subst loop_cross.simps) simp
    next
      case False
      with ov \<open>i < length axesb \<and> j < length axesb \<and> i < length axesa\<close>
      show ?thesis by (subst loop_cross.simps) simp
    qed
  next
    case False
    then show ?thesis by (subst loop_cross.simps) auto
  qed
qed

text \<open>The outer loop of the second nest, over \<^verbatim>\<open>i\<close> from 0 to \<^verbatim>\<open>len(axesa)\<close>.\<close>

function loop_axesa :: "nat \<Rightarrow> nat \<Rightarrow> Vec3 list \<Rightarrow> Vec3 list \<Rightarrow> nat \<Rightarrow> store \<Rightarrow> loop_exit \<times> store" where
  "loop_axesa a b axesa axesb i h =
     (if i < length axesa then
        (case OverlapOnAxis a b (axesa ! i) h of (ok, h1) \<Rightarrow>
           if \<not> ok then (Returned False, h1)
           else (case loop_cross a b axesa axesb 0 i h1 of (ex, i', h2) \<Rightarrow>
                   if ex = Fell_through then loop_axesa a b axesa axesb (i' + 1) h2
                   else (ex, h2)))
      else (Fell_through, h))"
  by pat_completeness auto
termination
proof (relation "measure (\<lambda>(a, b, axesa, axesb, i, h). length axesa - i)", goal_cases)
  case 1
  show ?case by simp
next
  case (2 a b axesa axesb i h ok h1 ex rest i' h2)
  have "i \<le> fst (snd (loop_cross a b axesa axesb 0 i h1))" by (rule loop_cross_index)
  moreover from 2 have "fst (snd (loop_cross a b axesa axesb 0 i h1)) = i'"
    by (metis fst_conv snd_conv)
  ultimately show ?case using 2(1) by simp
qed

declare loop_axesb.simps [simp del] loop_cross.simps [simp del] loop_axesa.simps [simp del]

text \<open>
  \<^verbatim>\<open>IntersectsBox3\<close>. \<open>None\<close> is a run-time panic, \<open>Some r\<close> the returned boolean.
\<close>

definition IntersectsBox3 :: "nat \<Rightarrow> nat \<Rightarrow> store \<Rightarrow> bool option \<times> store" where
  "IntersectsBox3 a b h =
     (case call_Axes a h of (axesa, h1) \<Rightarrow>
      case call_Axes b h1 of (axesb, h2) \<Rightarrow>
      case loop_axesb a b axesb 0 h2 of (ex1, h3) \<Rightarrow>
        (case ex1 of
           Returned r \<Rightarrow> (Some r, h3)
         | Index_panic \<Rightarrow> (None, h3)
         | Fell_through \<Rightarrow>
            (case loop_axesa a b axesa axesb 0 h3 of (ex2, h4) \<Rightarrow>
               (case ex2 of
                  Returned r \<Rightarrow> (Some r, h4)
                | Index_panic \<Rightarrow> (None, h4)
                | Fell_through \<Rightarrow> (Some True, h4)))))"

section \<open>Notions used in the proofs\<close>

text \<open>
  The result of a method as a function of the box alone, and what the scratch arrays may
  differ in without changing it: \<open>arrays_ok\<close> says that the arrays have their declared
  lengths, \<open>same_box\<close> that two boxes agree on everything a method reads before writing
  it. \<open>store_rel A B a b h\<close> says that the store \<open>h\<close> holds, at the addresses \<open>a\<close> and
  \<open>b\<close>, the boxes \<open>A\<close> and \<open>B\<close> up to such scratch contents. \<open>tested_axes\<close> lists the
  axes the loops of \<^verbatim>\<open>IntersectsBox3\<close> reach for boxes with three axes each.
  \<open>wf_Box3\<close> is the specification's well-formedness: halfSize not negative, for an OBB
  a unit quaternion, and the arrays at their declared lengths.
\<close>

definition projection_of :: "Box3 \<Rightarrow> Vec3 \<Rightarrow> Interval" where
  "projection_of x v = fst (Box3_ProjectOntoAxis x v)"

definition axes_of :: "Box3 \<Rightarrow> Vec3 list" where
  "axes_of x = fst (Box3_Axes x)"

fun arrays_ok :: "Box3 \<Rightarrow> bool" where
  "arrays_ok (Box3_AABB a) = (length (AABB_corners a) = 8)"
| "arrays_ok (Box3_OBB o') = (length (OBB_axes o') = 3 \<and> length (OBB_corners o') = 8)"

fun same_box :: "Box3 \<Rightarrow> Box3 \<Rightarrow> bool" where
  "same_box (Box3_AABB a) (Box3_AABB a') =
     (AABB_Position a = AABB_Position a' \<and> AABB_Size a = AABB_Size a' \<and>
      tl (AABB_corners a) = tl (AABB_corners a'))"
| "same_box (Box3_OBB o1) (Box3_OBB o2) =
     (OBB_Position o1 = OBB_Position o2 \<and> OBB_Size o1 = OBB_Size o2 \<and>
      OBB_Orientation o1 = OBB_Orientation o2)"
| "same_box (Box3_AABB a) (Box3_OBB o2) = False"
| "same_box (Box3_OBB o1) (Box3_AABB a') = False"

definition scratch_rel :: "Box3 \<Rightarrow> Box3 \<Rightarrow> bool" where
  "scratch_rel A x = (arrays_ok A \<and> arrays_ok x \<and> same_box A x)"

definition overlap_on :: "Box3 \<Rightarrow> Box3 \<Rightarrow> Vec3 \<Rightarrow> bool" where
  "overlap_on A B v = Overlaps (projection_of A v) (projection_of B v)"

definition store_rel :: "Box3 \<Rightarrow> Box3 \<Rightarrow> nat \<Rightarrow> nat \<Rightarrow> store \<Rightarrow> bool" where
  "store_rel A B a b h = (scratch_rel A (h a) \<and> scratch_rel B (h b))"

definition tested_axes :: "Box3 \<Rightarrow> Box3 \<Rightarrow> Vec3 list" where
  "tested_axes A B =
     axes_of B @
     [axes_of A ! 0,
      Vec3_Cross (axes_of B ! 0) (axes_of A ! 0),
      Vec3_Cross (axes_of B ! 0) (axes_of A ! 1),
      Vec3_Cross (axes_of B ! 0) (axes_of A ! 2)]"

fun wf_Box3 :: "Box3 \<Rightarrow> bool" where
  "wf_Box3 (Box3_AABB a) =
     (length (AABB_corners a) = 8 \<and>
      0 \<le> v0 (AABB_Size a) \<and> 0 \<le> v1 (AABB_Size a) \<and> 0 \<le> v2 (AABB_Size a))"
| "wf_Box3 (Box3_OBB o') =
     (length (OBB_axes o') = 3 \<and> length (OBB_corners o') = 8 \<and>
      0 \<le> v0 (OBB_Size o') \<and> 0 \<le> v1 (OBB_Size o') \<and> 0 \<le> v2 (OBB_Size o') \<and>
      W (OBB_Orientation o') * W (OBB_Orientation o')
        + Vec3_Dot (V (OBB_Orientation o')) (V (OBB_Orientation o')) = 1)"

text \<open>
  Two oriented boxes for the rotated cases. \<open>long_OBB\<close> is 20 by 2 by 2 and turned
  about the y axis by the unit quaternion (4/5, (0, 3/5, 0)); \<open>small_OBB\<close> is a cube of
  side 1 turned by half a turn about the y axis, which puts its centre at (3, 0, 1). The
  components 4/5 and 3/5 are not exact in \<^verbatim>\<open>float32\<close>; the intervals compared for these
  boxes lie apart by more than 1, or overlap by more than 1/4, far beyond the rounding of
  such inputs.
\<close>

definition long_OBB :: OBB where
  "long_OBB = OBB_lit (Vec3 0 0 0) (Vec3 10 1 1) (Quat (4 / 5) (Vec3 0 (3 / 5) 0))"

definition small_OBB :: OBB where
  "small_OBB = OBB_lit (Vec3 (- 3) 0 (- 1)) (Vec3 (1 / 2) (1 / 2) (1 / 2)) (Quat 0 (Vec3 0 1 0))"

definition OBB_store :: store where
  "OBB_store = (\<lambda>p. Box3_OBB long_OBB)(1 := Box3_OBB small_OBB)"

text \<open>
  Two AABBs that lie apart along z, a ray that passes the box at the origin on its side,
  and the state of an AABB's scratch array that \<^verbatim>\<open>Corners\<close> never changes: slots 1 to 7
  zero.
\<close>

definition AABB_store :: store where
  "AABB_store = (\<lambda>p. Box3_AABB (AABB_lit (Vec3 0 0 0) (Vec3 2 2 2)))
                  (1 := Box3_AABB (AABB_lit (Vec3 0 0 5) (Vec3 2 2 2)))"

definition AABB_scratch_zero :: "AABB \<Rightarrow> bool" where
  "AABB_scratch_zero a = (tl (AABB_corners a) = replicate 7 (Vec3 0 0 0))"

definition side_ray :: Ray3 where
  "side_ray = \<lparr>Ray3_Origin = Vec3 5 0 0, Ray3_Direction = Vec3 0 1 0\<rparr>"

section \<open>Evaluation helpers\<close>

lemma nth_lits:
  "(x # xs) ! 0 = x" "(x # xs) ! 1 = xs ! 0" "(x # xs) ! 2 = xs ! 1" "(x # xs) ! 3 = xs ! 2"
  "(x # xs) ! 4 = xs ! 3" "(x # xs) ! 5 = xs ! 4" "(x # xs) ! 6 = xs ! 5" "(x # xs) ! 7 = xs ! 6"
  by (simp_all add: eval_nat_numeral)

lemma replicate_8: "replicate 8 x = [x, x, x, x, x, x, x, x]"
  by (simp add: eval_nat_numeral)

lemma replicate_3: "replicate 3 x = [x, x, x]"
  by (simp add: eval_nat_numeral)

lemma AABB_Min_lit_2: "AABB_Min (AABB_lit (Vec3 0 0 0) (Vec3 2 2 2)) = Vec3 (- 2) (- 2) (- 2)"
  by (simp add: AABB_Min_def AABB_lit_def Vec3_Add_def Vec3_Sub_def min32_def)

lemma AABB_Max_lit_2: "AABB_Max (AABB_lit (Vec3 0 0 0) (Vec3 2 2 2)) = Vec3 2 2 2"
  by (simp add: AABB_Max_def AABB_lit_def Vec3_Add_def Vec3_Sub_def max32_def)

lemma AABB_Corners_lit:
  "fst (AABB_Corners (AABB_lit p s)) =
     [Vec3 (v0 (AABB_Max (AABB_lit p s))) (v1 (AABB_Min (AABB_lit p s))) (v2 (AABB_Min (AABB_lit p s))),
      Vec3 0 0 0, Vec3 0 0 0, Vec3 0 0 0, Vec3 0 0 0, Vec3 0 0 0, Vec3 0 0 0, Vec3 0 0 0]"
  by (simp add: AABB_Corners_def Let_def) (simp add: AABB_lit_def replicate_8)

section \<open>AABB.ProjectOntoAxis against the eight corners\<close>

lemma project_vertices_example:
  "project_vertices (Vec3 1 0 0)
     [Vec3 2 (- 2) (- 2), Vec3 0 0 0, Vec3 0 0 0, Vec3 0 0 0, Vec3 0 0 0, Vec3 0 0 0,
      Vec3 0 0 0, Vec3 0 0 0]
   = \<lparr>Interval_Min = 0, Interval_Max = 2\<rparr>"
  by (simp add: project_vertices_def project_step_def Vec3_Dot_def nth_lits)

lemma spec_projection_example:
  "spec_projection (AABB_lit (Vec3 0 0 0) (Vec3 2 2 2)) (Vec3 1 0 0)
     = \<lparr>Interval_Min = - 2, Interval_Max = 2\<rparr>"
  by (simp add: spec_projection_def spec_corner_points_def AABB_lit_def Vec3_Dot_def)

text \<open>
  C3. The claim: \<^verbatim>\<open>a.ProjectOntoAxis(v)\<close> is the interval from the least to the greatest
  dot product of \<open>v\<close> with the eight corner points. For the box at the origin with
  halfSize (2,2,2) and the axis (1,0,0) the eight corners give the interval from -2 to 2.
  The code returns the interval from 0 to 2: \<^verbatim>\<open>Corners\<close> has stored only the last corner
  (2,-2,-2), in slot 0, and the seven other slots of the scratch array are still zero.
\<close>

theorem AABB_ProjectOntoAxis_sees_one_corner:
  "fst (AABB_ProjectOntoAxis (AABB_lit (Vec3 0 0 0) (Vec3 2 2 2)) (Vec3 1 0 0))
     = \<lparr>Interval_Min = 0, Interval_Max = 2\<rparr>
   \<and> spec_projection (AABB_lit (Vec3 0 0 0) (Vec3 2 2 2)) (Vec3 1 0 0)
     = \<lparr>Interval_Min = - 2, Interval_Max = 2\<rparr>"
  by (simp add: AABB_ProjectOntoAxis_def split_beta AABB_Corners_lit AABB_Min_lit_2 AABB_Max_lit_2
      project_vertices_example spec_projection_example)

section \<open>Plane3.Raycast\<close>

lemma Vec3_Normalize_Y: "Vec3_Normalize (Vec3 0 1 0) = Vec3 0 1 0"
  by (simp add: Vec3_Normalize_def Vec3_Len_def)

text \<open>
  C5, as claimed: for the plane with normal (0,1,0) and distance 0, the ray from
  (0,-100,0) in direction (0,1,0) hits at distance 100. It does not: the direction and the
  normal have dot product 1, and the function returns at its guard \<^verbatim>\<open>nd >= 0\<close>.
\<close>

theorem Plane3_Raycast_from_below_misses:
  "\<not> snd (Plane3_Raycast \<lparr>Plane3_Normal = Vec3 0 1 0, Plane3_Distance = 0\<rparr>
              \<lparr>Ray3_Origin = Vec3 0 (- 100) 0, Ray3_Direction = Vec3 0 1 0\<rparr>)"
  by (simp add: Plane3_Raycast_def Vec3_Dot_def)

text \<open>
  C5, amended: for the plane with normal (0,1,0) and distance 0, the ray from (0,-100,0)
  in direction (0,1,0) fails with \<^verbatim>\<open>PlaneFacesAwayFromRay\<close>; the ray from (0,-100,0) in
  direction (0,-1,0) fails with \<^verbatim>\<open>TargetBehindRayOrigin\<close>; the ray from (0,100,0) in
  direction (0,-1,0) succeeds with distance 100, hit point (0,0,0) and normal (0,1,0).
\<close>

theorem Plane3_Raycast_examples:
  "Plane3_Raycast \<lparr>Plane3_Normal = Vec3 0 1 0, Plane3_Distance = 0\<rparr>
      \<lparr>Ray3_Origin = Vec3 0 (- 100) 0, Ray3_Direction = Vec3 0 1 0\<rparr>
     = (res0\<lparr>RaycastResult_Fail := RaycastFailPlaneFacesAwayFromRay\<rparr>, False)
   \<and> Plane3_Raycast \<lparr>Plane3_Normal = Vec3 0 1 0, Plane3_Distance = 0\<rparr>
      \<lparr>Ray3_Origin = Vec3 0 (- 100) 0, Ray3_Direction = Vec3 0 (- 1) 0\<rparr>
     = (res0\<lparr>RaycastResult_Fail := RaycastFailTargetBehindRayOrigin\<rparr>, False)
   \<and> Plane3_Raycast \<lparr>Plane3_Normal = Vec3 0 1 0, Plane3_Distance = 0\<rparr>
      \<lparr>Ray3_Origin = Vec3 0 100 0, Ray3_Direction = Vec3 0 (- 1) 0\<rparr>
     = (\<lparr>RaycastResult_Point = Vec3 0 0 0, RaycastResult_Normal = Vec3 0 1 0,
         RaycastResult_Distance = 100, RaycastResult_Fail = RaycastFailUnknown\<rparr>, True)"
  by (simp add: Plane3_Raycast_def Vec3_Dot_def Vec3_Normalize_Y res0_def Vec3_Add_def Vec3_Mul_def)

section \<open>AABB.Raycast: the two failure reasons\<close>

lemma AABB_Raycast_behind:
  "(\<not> snd (AABB_Raycast a ray) \<and>
      RaycastResult_Fail (fst (AABB_Raycast a ray)) = RaycastFailTargetBehindRayOrigin)
     = (slab_tmax (AABB_Raycast_t a ray) < 0)"
  by (simp add: AABB_Raycast_def Let_def res0_def)

lemma AABB_Raycast_outside:
  "(\<not> snd (AABB_Raycast a ray) \<and>
      RaycastResult_Fail (fst (AABB_Raycast a ray)) = RaycastFailOutsideBounds)
     = (0 \<le> slab_tmax (AABB_Raycast_t a ray) \<and>
        slab_tmin (AABB_Raycast_t a ray) > slab_tmax (AABB_Raycast_t a ray))"
  by (auto simp add: AABB_Raycast_def Let_def res0_def)

lemma AABB_Raycast_t_example:
  "AABB_Raycast_t (AABB_lit (Vec3 0 0 0) (Vec3 2 2 2))
         \<lparr>Ray3_Origin = Vec3 0 0 5, Ray3_Direction = Vec3 0 0 1\<rparr>
   = [- 2 * 2 ^ 149, 2 * 2 ^ 149, - 2 * 2 ^ 149, 2 * 2 ^ 149, - 7, - 3]"
  by (simp add: AABB_Raycast_t_def AABB_Min_lit_2 AABB_Max_lit_2 nonzero_def
      SmallestNonzeroFloat32_def)

lemma slab_tmax_example:
  "slab_tmax (AABB_Raycast_t (AABB_lit (Vec3 0 0 0) (Vec3 2 2 2))
         \<lparr>Ray3_Origin = Vec3 0 0 5, Ray3_Direction = Vec3 0 0 1\<rparr>) = - 3"
  by (simp add: AABB_Raycast_t_example slab_tmax_def nth_lits min32_def max32_def)

lemma AABB_Raycast_example:
  "AABB_Raycast (AABB_lit (Vec3 0 0 0) (Vec3 2 2 2))
       \<lparr>Ray3_Origin = Vec3 0 0 5, Ray3_Direction = Vec3 0 0 1\<rparr>
     = (res0\<lparr>RaycastResult_Fail := RaycastFailTargetBehindRayOrigin\<rparr>, False)"
  unfolding AABB_Raycast_def Let_def slab_tmax_example by simp

text \<open>
  C9. For every AABB and ray, \<^verbatim>\<open>AABB.Raycast\<close> fails with \<^verbatim>\<open>TargetBehindRayOrigin\<close>
  exactly when the slab-exit distance \<^verbatim>\<open>tmax\<close> is negative, and fails with
  \<^verbatim>\<open>OutsideBounds\<close> exactly when \<^verbatim>\<open>tmax\<close> is not negative and the slab-entry distance
  \<^verbatim>\<open>tmin\<close> exceeds it. For the box at the origin with halfSize (2,2,2) and the ray from
  (0,0,5) in direction (0,0,1) it fails with \<^verbatim>\<open>TargetBehindRayOrigin\<close>.
\<close>

theorem AABB_Raycast_fail_reasons:
  "((\<not> snd (AABB_Raycast a ray) \<and>
       RaycastResult_Fail (fst (AABB_Raycast a ray)) = RaycastFailTargetBehindRayOrigin)
      = (slab_tmax (AABB_Raycast_t a ray) < 0))
   \<and> ((\<not> snd (AABB_Raycast a ray) \<and>
       RaycastResult_Fail (fst (AABB_Raycast a ray)) = RaycastFailOutsideBounds)
      = (0 \<le> slab_tmax (AABB_Raycast_t a ray) \<and>
         slab_tmin (AABB_Raycast_t a ray) > slab_tmax (AABB_Raycast_t a ray)))
   \<and> AABB_Raycast (AABB_lit (Vec3 0 0 0) (Vec3 2 2 2))
         \<lparr>Ray3_Origin = Vec3 0 0 5, Ray3_Direction = Vec3 0 0 1\<rparr>
      = (res0\<lparr>RaycastResult_Fail := RaycastFailTargetBehindRayOrigin\<rparr>, False)"
  using AABB_Raycast_behind AABB_Raycast_outside AABB_Raycast_example by blast

section \<open>Sphere.Raycast\<close>

lemma Sphere_Raycast_Fail:
  "RaycastResult_Fail (fst (Sphere_Raycast s ray)) \<noteq> RaycastFailTargetBehindRayOrigin"
  by (simp add: Sphere_Raycast_def Let_def res0_def)

lemma Sphere_Raycast_behind:
  "(let e = Vec3_Sub (Sphere_Position s) (Ray3_Origin ray);
        a = Vec3_Dot e (Ray3_Direction ray);
        d = Sphere_Radius s * Sphere_Radius s - (Vec3_Dot e e - a * a);
        t = a - sqrt32 (abs32 d)
    in 0 \<le> d \<and> Sphere_Radius s * Sphere_Radius s \<le> Vec3_Dot e e \<and> t < 0 \<longrightarrow>
       snd (Sphere_Raycast s ray) \<and>
       RaycastResult_Distance (fst (Sphere_Raycast s ray)) = t \<and>
       RaycastResult_Distance (fst (Sphere_Raycast s ray)) < 0 \<and>
       RaycastResult_Point (fst (Sphere_Raycast s ray))
         = Vec3_Add (Ray3_Origin ray) (Vec3_Mul (Ray3_Direction ray) t))"
  by (simp add: Sphere_Raycast_def Let_def res0_def not_less)

text \<open>
  C10. \<^verbatim>\<open>Sphere.Raycast\<close> never returns the failure reason \<^verbatim>\<open>TargetBehindRayOrigin\<close>.
  When the line of the ray passes through the sphere (the discriminant \<open>d\<close> is not
  negative), the origin is not inside the sphere and the nearest root \<open>t\<close> is negative,
  it reports a hit, with the negative distance \<open>t\<close> and the hit point \<open>origin + direction * t\<close>
  behind the origin.
\<close>

theorem Sphere_Raycast_never_behind:
  "RaycastResult_Fail (fst (Sphere_Raycast s' ray')) \<noteq> RaycastFailTargetBehindRayOrigin \<and>
   (let e = Vec3_Sub (Sphere_Position s) (Ray3_Origin ray);
        a = Vec3_Dot e (Ray3_Direction ray);
        d = Sphere_Radius s * Sphere_Radius s - (Vec3_Dot e e - a * a);
        t = a - sqrt32 (abs32 d)
    in 0 \<le> d \<and> Sphere_Radius s * Sphere_Radius s \<le> Vec3_Dot e e \<and> t < 0 \<longrightarrow>
       snd (Sphere_Raycast s ray) \<and>
       RaycastResult_Distance (fst (Sphere_Raycast s ray)) = t \<and>
       RaycastResult_Distance (fst (Sphere_Raycast s ray)) < 0 \<and>
       RaycastResult_Point (fst (Sphere_Raycast s ray))
         = Vec3_Add (Ray3_Origin ray) (Vec3_Mul (Ray3_Direction ray) t))"
  using Sphere_Raycast_Fail Sphere_Raycast_behind by blast

theorem Sphere_Raycast_never_behind_witness:
  "snd (Sphere_Raycast \<lparr>Sphere_Position = Vec3 0 0 (- 5), Sphere_Radius = 1\<rparr>
          \<lparr>Ray3_Origin = Vec3 0 0 0, Ray3_Direction = Vec3 0 0 1\<rparr>) \<and>
   RaycastResult_Distance
       (fst (Sphere_Raycast \<lparr>Sphere_Position = Vec3 0 0 (- 5), Sphere_Radius = 1\<rparr>
          \<lparr>Ray3_Origin = Vec3 0 0 0, Ray3_Direction = Vec3 0 0 1\<rparr>)) = - 6 \<and>
   RaycastResult_Point
       (fst (Sphere_Raycast \<lparr>Sphere_Position = Vec3 0 0 (- 5), Sphere_Radius = 1\<rparr>
          \<lparr>Ray3_Origin = Vec3 0 0 0, Ray3_Direction = Vec3 0 0 1\<rparr>)) = Vec3 0 0 (- 6)"
  using Sphere_Raycast_never_behind
    [of _ _ "\<lparr>Sphere_Position = Vec3 0 0 (- 5), Sphere_Radius = 1\<rparr>"
        "\<lparr>Ray3_Origin = Vec3 0 0 0, Ray3_Direction = Vec3 0 0 1\<rparr>"]
  by (simp add: Let_def Vec3_Sub_def Vec3_Dot_def sqrt32_def abs32_def Vec3_Add_def Vec3_Mul_def)

section \<open>IntersectsBox3 as a function of the two boxes\<close>

lemma update_all_3: "length xs = 3 \<Longrightarrow> xs[0 := a, Suc 0 := b, 2 := c] = [a, b, c]"
  by (auto simp: eval_nat_numeral length_Suc_conv)

lemma update_all_8:
  "length xs = 8 \<Longrightarrow> xs[0 := a, Suc 0 := b, 2 := c, 3 := d, 4 := e, 5 := f, 6 := g, 7 := h]
     = [a, b, c, d, e, f, g, h]"
  by (auto simp: eval_nat_numeral length_Suc_conv)

lemma AABB_Corners_fst:
  "fst (AABB_Corners a) =
     (AABB_corners a)[0 := Vec3 (v0 (AABB_Max a)) (v1 (AABB_Min a)) (v2 (AABB_Min a))]"
  by (simp add: AABB_Corners_def Let_def)

lemma AABB_Corners_snd:
  "snd (AABB_Corners a) = a\<lparr>AABB_corners := fst (AABB_Corners a)\<rparr>"
  by (simp add: AABB_Corners_def Let_def)

lemma AABB_Min_Max_cong:
  "AABB_Position a = AABB_Position a' \<Longrightarrow> AABB_Size a = AABB_Size a' \<Longrightarrow>
     AABB_Min a = AABB_Min a' \<and> AABB_Max a = AABB_Max a'"
  by (simp add: AABB_Min_def AABB_Max_def)

lemma update_0_tl: "length xs = 8 \<Longrightarrow> xs[0 := c] = c # tl xs"
  by (cases xs) auto

lemma OBB_Corners_fst:
  "OBB_Orientation o' \<noteq> QuatIdent \<Longrightarrow> length (OBB_corners o') = 8 \<Longrightarrow>
   fst (OBB_Corners o') =
     (let p = OBB_Position o'; s = OBB_Size o'; q = OBB_Orientation o'
      in [Quat_Rotate q (Vec3 (v0 p + v0 s) (v1 p + v1 s) (v2 p + v2 s)),
          Quat_Rotate q (Vec3 (v0 p + v0 s) (v1 p + v1 s) (v2 p - v2 s)),
          Quat_Rotate q (Vec3 (v0 p + v0 s) (v1 p - v1 s) (v2 p + v2 s)),
          Quat_Rotate q (Vec3 (v0 p + v0 s) (v1 p - v1 s) (v2 p - v2 s)),
          Quat_Rotate q (Vec3 (v0 p - v0 s) (v1 p + v1 s) (v2 p + v2 s)),
          Quat_Rotate q (Vec3 (v0 p - v0 s) (v1 p + v1 s) (v2 p - v2 s)),
          Quat_Rotate q (Vec3 (v0 p - v0 s) (v1 p - v1 s) (v2 p + v2 s)),
          Quat_Rotate q (Vec3 (v0 p - v0 s) (v1 p - v1 s) (v2 p - v2 s))])"
  by (simp add: OBB_Corners_def Let_def update_all_8)

lemma OBB_Corners_snd:
  "snd (OBB_Corners o') =
     (if OBB_Orientation o' = QuatIdent then o' else o'\<lparr>OBB_corners := fst (OBB_Corners o')\<rparr>)"
  by (simp add: OBB_Corners_def Let_def)

lemma OBB_Corners_length:
  "length (OBB_corners o') = 8 \<Longrightarrow> length (fst (OBB_Corners o')) = 8"
  by (simp add: OBB_Corners_def Let_def AABB_Corners_fst AABB_lit_def)

lemma OBB_Axes_fst:
  "OBB_Orientation o' \<noteq> QuatIdent \<Longrightarrow> length (OBB_axes o') = 3 \<Longrightarrow>
   fst (OBB_Axes o') =
     [Vec3_Normalize (Quat_Rotate (OBB_Orientation o') X3),
      Vec3_Normalize (Quat_Rotate (OBB_Orientation o') Y3),
      Vec3_Normalize (Quat_Rotate (OBB_Orientation o') Z3)]"
  by (simp add: OBB_Axes_def Let_def update_all_3)

lemma OBB_Axes_snd:
  "snd (OBB_Axes o') =
     (if OBB_Orientation o' = QuatIdent then o' else o'\<lparr>OBB_axes := fst (OBB_Axes o')\<rparr>)"
  by (simp add: OBB_Axes_def Let_def)

lemma OBB_Axes_length: "length (OBB_axes o') = 3 \<Longrightarrow> length (fst (OBB_Axes o')) = 3"
  by (simp add: OBB_Axes_def Let_def AABB_Axes_def aabbAxes_def)

lemma scratch_rel_refl: "arrays_ok A \<Longrightarrow> scratch_rel A A"
  by (cases A) (simp_all add: scratch_rel_def)

lemma scratch_rel_proj_fst: "scratch_rel A x \<Longrightarrow> fst (Box3_ProjectOntoAxis x v) = projection_of A v"
proof (cases A; cases x)
  fix a a' assume h: "scratch_rel A x" "A = Box3_AABB a" "x = Box3_AABB a'"
  then have "fst (AABB_Corners a') = fst (AABB_Corners a)"
    using AABB_Min_Max_cong[of a a']
    by (simp add: scratch_rel_def AABB_Corners_fst update_0_tl)
  with h show ?thesis
    by (simp add: projection_of_def Box3_ProjectOntoAxis_def AABB_ProjectOntoAxis_def split_beta)
next
  fix o1 o2 assume h: "scratch_rel A x" "A = Box3_OBB o1" "x = Box3_OBB o2"
  show ?thesis
  proof (cases "OBB_Orientation o1 = QuatIdent")
    case True
    with h show ?thesis
      by (simp add: scratch_rel_def projection_of_def Box3_ProjectOntoAxis_def OBB_ProjectOntoAxis_def split_beta)
  next
    case False
    with h have "fst (OBB_Corners o2) = fst (OBB_Corners o1)"
      by (simp add: scratch_rel_def OBB_Corners_fst)
    with h False show ?thesis
      by (simp add: scratch_rel_def projection_of_def Box3_ProjectOntoAxis_def OBB_ProjectOntoAxis_def split_beta)
  qed
qed (simp_all add: scratch_rel_def)

lemma scratch_rel_proj_snd: "scratch_rel A x \<Longrightarrow> scratch_rel A (snd (Box3_ProjectOntoAxis x v))"
proof (cases A; cases x)
  fix a a' assume h: "scratch_rel A x" "A = Box3_AABB a" "x = Box3_AABB a'"
  then show ?thesis
    by (simp add: scratch_rel_def Box3_ProjectOntoAxis_def AABB_ProjectOntoAxis_def split_beta
        AABB_Corners_snd AABB_Corners_fst update_0_tl)
next
  fix o1 o2 assume h: "scratch_rel A x" "A = Box3_OBB o1" "x = Box3_OBB o2"
  then show ?thesis
    using OBB_Corners_length[of o2]
    by (simp add: scratch_rel_def Box3_ProjectOntoAxis_def OBB_ProjectOntoAxis_def split_beta
        OBB_Corners_snd)
qed (simp_all add: scratch_rel_def)

lemma scratch_rel_axes_fst: "scratch_rel A x \<Longrightarrow> fst (Box3_Axes x) = axes_of A"
proof (cases A; cases x)
  fix o1 o2 assume h: "scratch_rel A x" "A = Box3_OBB o1" "x = Box3_OBB o2"
  show ?thesis
  proof (cases "OBB_Orientation o1 = QuatIdent")
    case True
    with h show ?thesis
      by (simp add: scratch_rel_def axes_of_def Box3_Axes_def OBB_Axes_def split_beta AABB_Axes_def)
  next
    case False
    with h show ?thesis
      by (simp add: scratch_rel_def axes_of_def Box3_Axes_def split_beta OBB_Axes_fst)
  qed
qed (simp_all add: scratch_rel_def axes_of_def Box3_Axes_def AABB_Axes_def)

lemma scratch_rel_axes_snd: "scratch_rel A x \<Longrightarrow> scratch_rel A (snd (Box3_Axes x))"
proof (cases A; cases x)
  fix o1 o2 assume h: "scratch_rel A x" "A = Box3_OBB o1" "x = Box3_OBB o2"
  then show ?thesis
    using OBB_Axes_length[of o2]
    by (simp add: scratch_rel_def Box3_Axes_def split_beta OBB_Axes_snd)
qed (simp_all add: scratch_rel_def Box3_Axes_def)

lemma axes_of_length: "arrays_ok A \<Longrightarrow> length (axes_of A) = 3"
  by (cases A) (simp_all add: axes_of_def Box3_Axes_def split_beta AABB_Axes_def aabbAxes_def
      OBB_Axes_length)

lemma call_ProjectOntoAxis_a:
  assumes "store_rel A B a b h"
  shows "fst (call_ProjectOntoAxis a v h) = projection_of A v
         \<and> store_rel A B a b (snd (call_ProjectOntoAxis a v h))"
  using assms scratch_rel_proj_fst[of A "h a" v] scratch_rel_proj_snd[of A "h a" v] scratch_rel_proj_snd[of B "h a" v]
  by (auto simp: store_rel_def call_ProjectOntoAxis_def split_beta)

lemma call_ProjectOntoAxis_b:
  assumes "store_rel A B a b h"
  shows "fst (call_ProjectOntoAxis b v h) = projection_of B v
         \<and> store_rel A B a b (snd (call_ProjectOntoAxis b v h))"
  using assms scratch_rel_proj_fst[of B "h b" v] scratch_rel_proj_snd[of B "h b" v] scratch_rel_proj_snd[of A "h b" v]
  by (auto simp: store_rel_def call_ProjectOntoAxis_def split_beta)

lemma call_Axes_a:
  assumes "store_rel A B a b h"
  shows "fst (call_Axes a h) = axes_of A \<and> store_rel A B a b (snd (call_Axes a h))"
  using assms scratch_rel_axes_fst[of A "h a"] scratch_rel_axes_snd[of A "h a"] scratch_rel_axes_snd[of B "h a"]
  by (auto simp: store_rel_def call_Axes_def split_beta)

lemma call_Axes_b:
  assumes "store_rel A B a b h"
  shows "fst (call_Axes b h) = axes_of B \<and> store_rel A B a b (snd (call_Axes b h))"
  using assms scratch_rel_axes_fst[of B "h b"] scratch_rel_axes_snd[of B "h b"] scratch_rel_axes_snd[of A "h b"]
  by (auto simp: store_rel_def call_Axes_def split_beta)

lemma OverlapOnAxis_pure:
  assumes "store_rel A B a b h"
  shows "fst (OverlapOnAxis a b v h) = overlap_on A B v
         \<and> store_rel A B a b (snd (OverlapOnAxis a b v h))"
proof -
  from call_ProjectOntoAxis_a[OF assms, of v]
  have 1: "fst (call_ProjectOntoAxis a v h) = projection_of A v"
    and 2: "store_rel A B a b (snd (call_ProjectOntoAxis a v h))" by simp_all
  from call_ProjectOntoAxis_b[OF 2, of v] 1
  show ?thesis by (simp add: OverlapOnAxis_def split_beta overlap_on_def)
qed

lemma loop_axesb_pure:
  "store_rel A B a b h \<Longrightarrow>
   fst (loop_axesb a b axesb j h)
     = (if list_all (overlap_on A B) (drop j axesb) then Fell_through else Returned False)
   \<and> store_rel A B a b (snd (loop_axesb a b axesb j h))"
proof (induction a b axesb j h rule: loop_axesb.induct)
  case (1 a b axesb j h)
  show ?case
  proof (cases "j < length axesb")
    case False
    with 1 show ?thesis by (subst (1 2) loop_axesb.simps) simp
  next
    case True
    note o = OverlapOnAxis_pure[OF "1.prems", of "axesb ! j"]
    obtain ok h' where eq: "OverlapOnAxis a b (axesb ! j) h = (ok, h')"
      by (cases "OverlapOnAxis a b (axesb ! j) h")
    with o have ok: "ok = overlap_on A B (axesb ! j)" and h': "store_rel A B a b h'" by simp_all
    have d: "drop j axesb = axesb ! j # drop (j + 1) axesb"
      using True by (simp add: Cons_nth_drop_Suc)
    show ?thesis
    proof (cases ok)
      case False
      with True eq ok h' d show ?thesis by (subst (1 2) loop_axesb.simps) simp
    next
      case True
      from "1.IH"[OF \<open>j < length axesb\<close> eq[symmetric] _ h'] True
      have "fst (loop_axesb a b axesb (j + 1) h')
              = (if list_all (overlap_on A B) (drop (j + 1) axesb) then Fell_through else Returned False)
            \<and> store_rel A B a b (snd (loop_axesb a b axesb (j + 1) h'))" by simp
      with True \<open>j < length axesb\<close> eq ok d show ?thesis
        by (subst (1 2) loop_axesb.simps) simp
    qed
  qed
qed

lemma loop_cross_pure:
  "store_rel A B a b h \<Longrightarrow> j < length axesb \<Longrightarrow> length axesb \<le> length axesa \<Longrightarrow>
   fst (loop_cross a b axesa axesb j i h)
     = (if list_all (\<lambda>k. overlap_on A B (Vec3_Cross (axesb ! j) (axesa ! k))) [i..<length axesb]
        then Fell_through else Returned False)
   \<and> (list_all (\<lambda>k. overlap_on A B (Vec3_Cross (axesb ! j) (axesa ! k))) [i..<length axesb]
        \<longrightarrow> fst (snd (loop_cross a b axesa axesb j i h)) = max i (length axesb))
   \<and> store_rel A B a b (snd (snd (loop_cross a b axesa axesb j i h)))"
proof (induction a b axesa axesb j i h rule: loop_cross.induct)
  case (1 a b axesa axesb j i h)
  show ?case
  proof (cases "i < length axesb")
    case False
    with 1 show ?thesis by (subst (1 2 3) loop_cross.simps) simp
  next
    case True
    with "1.prems" have g: "j < length axesb \<and> i < length axesa" by simp
    note o = OverlapOnAxis_pure[OF "1.prems"(1), of "Vec3_Cross (axesb ! j) (axesa ! i)"]
    obtain ok h' where eq: "OverlapOnAxis a b (Vec3_Cross (axesb ! j) (axesa ! i)) h = (ok, h')"
      by (cases "OverlapOnAxis a b (Vec3_Cross (axesb ! j) (axesa ! i)) h")
    with o have ok: "ok = overlap_on A B (Vec3_Cross (axesb ! j) (axesa ! i))"
      and h': "store_rel A B a b h'" by simp_all
    have u: "[i..<length axesb] = i # [i + 1..<length axesb]"
      using True by (simp add: upt_conv_Cons)
    show ?thesis
    proof (cases ok)
      case False
      with True g eq ok h' u show ?thesis by (subst (1 2 3) loop_cross.simps) simp
    next
      case True
      from "1.IH"[OF \<open>i < length axesb\<close> g eq[symmetric] _ h' "1.prems"(2,3)] True
      have ih: "fst (loop_cross a b axesa axesb j (i + 1) h')
           = (if list_all (\<lambda>k. overlap_on A B (Vec3_Cross (axesb ! j) (axesa ! k))) [i + 1..<length axesb]
              then Fell_through else Returned False)
         \<and> (list_all (\<lambda>k. overlap_on A B (Vec3_Cross (axesb ! j) (axesa ! k))) [i + 1..<length axesb]
              \<longrightarrow> fst (snd (loop_cross a b axesa axesb j (i + 1) h')) = max (i + 1) (length axesb))
         \<and> store_rel A B a b (snd (snd (loop_cross a b axesa axesb j (i + 1) h')))" by simp
      have m: "max (i + 1) (length axesb) = max i (length axesb)"
        using \<open>i < length axesb\<close> by simp
      from ih True \<open>i < length axesb\<close> g eq ok u m show ?thesis
        by (subst (1 2 3) loop_cross.simps) simp
    qed
  qed
qed

lemma loop_axesa_pure:
  assumes r: "store_rel A B a b h" and n: "length axesa = length axesb" "0 < length axesb"
  shows "fst (loop_axesa a b axesa axesb 0 h)
     = (if overlap_on A B (axesa ! 0) \<and>
           list_all (\<lambda>k. overlap_on A B (Vec3_Cross (axesb ! 0) (axesa ! k))) [0..<length axesb]
        then Fell_through else Returned False)"
proof -
  let ?P = "list_all (\<lambda>k. overlap_on A B (Vec3_Cross (axesb ! 0) (axesa ! k))) [0..<length axesb]"
  obtain ok h1 where eq: "OverlapOnAxis a b (axesa ! 0) h = (ok, h1)"
    by (cases "OverlapOnAxis a b (axesa ! 0) h")
  with OverlapOnAxis_pure[OF r, of "axesa ! 0"]
  have ok: "ok = overlap_on A B (axesa ! 0)" and r1: "store_rel A B a b h1" by simp_all
  obtain ex i' h2 where c: "loop_cross a b axesa axesb 0 0 h1 = (ex, i', h2)"
    by (cases "loop_cross a b axesa axesb 0 0 h1")
  from loop_cross_pure[OF r1, of 0 axesb axesa 0] n c
  have ex: "ex = (if ?P then Fell_through else Returned False)"
    and i': "?P \<longrightarrow> i' = length axesb" by simp_all
  have stop: "fst (loop_axesa a b axesa axesb (length axesb + 1) h2) = Fell_through"
    using n by (subst loop_axesa.simps) simp
  show ?thesis
  proof (cases "ok \<and> ?P")
    case True
    with eq c ex i' stop n ok show ?thesis by (subst loop_axesa.simps) simp
  next
    case False
    with eq c ex n ok show ?thesis by (subst loop_axesa.simps) auto
  qed
qed

lemma upt_3: "[0..<3] = [0, 1, 2]"
  by (simp add: eval_nat_numeral upt_rec)

lemma IntersectsBox3_tests:
  assumes "arrays_ok (h a)" "arrays_ok (h b)"
  shows "fst (IntersectsBox3 a b h) = Some (list_all (overlap_on (h a) (h b)) (tested_axes (h a) (h b)))"
proof -
  let ?A = "h a" and ?B = "h b"
  have r0: "store_rel ?A ?B a b h" using assms by (simp add: store_rel_def scratch_rel_refl)
  obtain axesa h1 where e1: "call_Axes a h = (axesa, h1)" by (cases "call_Axes a h")
  with call_Axes_a[OF r0] have a: "axesa = axes_of ?A" and r1: "store_rel ?A ?B a b h1" by simp_all
  obtain axesb h2 where e2: "call_Axes b h1 = (axesb, h2)" by (cases "call_Axes b h1")
  with call_Axes_b[OF r1] have b: "axesb = axes_of ?B" and r2: "store_rel ?A ?B a b h2" by simp_all
  have la: "length axesa = 3" and lb: "length axesb = 3"
    using a b assms by (simp_all add: axes_of_length)
  obtain ex1 h3 where e3: "loop_axesb a b axesb 0 h2 = (ex1, h3)"
    by (cases "loop_axesb a b axesb 0 h2")
  with loop_axesb_pure[OF r2, of axesb 0]
  have x1: "ex1 = (if list_all (overlap_on ?A ?B) axesb then Fell_through else Returned False)"
    and r3: "store_rel ?A ?B a b h3" by simp_all
  obtain ex2 h4 where e4: "loop_axesa a b axesa axesb 0 h3 = (ex2, h4)"
    by (cases "loop_axesa a b axesa axesb 0 h3")
  with loop_axesa_pure[OF r3, of axesa axesb] la lb
  have x2: "ex2 = (if overlap_on ?A ?B (axesa ! 0) \<and>
           list_all (\<lambda>k. overlap_on ?A ?B (Vec3_Cross (axesb ! 0) (axesa ! k))) [0, 1, 2]
        then Fell_through else Returned False)" by (simp add: upt_3)
  show ?thesis
    using e1 e2 e3 e4 x1 x2 a b
    by (auto simp add: IntersectsBox3_def tested_axes_def)
qed









section \<open>IntersectsBox3 on two oriented boxes\<close>

lemmas vec_defs = Vec3_Add_def Vec3_Sub_def Vec3_Mul_def Vec3_Dot_def Vec3_Cross_def
  Vec3_Len_def Vec3_Normalize_def Quat_Rotate_def X3_def Y3_def Z3_def

lemma long_OBB_facts:
  "OBB_Orientation long_OBB \<noteq> QuatIdent" "length (OBB_axes long_OBB) = 3"
  "length (OBB_corners long_OBB) = 8"
  by (simp_all add: long_OBB_def OBB_lit_def QuatIdent_def)

lemma small_OBB_facts:
  "OBB_Orientation small_OBB \<noteq> QuatIdent" "length (OBB_axes small_OBB) = 3"
  "length (OBB_corners small_OBB) = 8"
  by (simp_all add: small_OBB_def OBB_lit_def QuatIdent_def)

lemma axes_of_long_OBB:
  "axes_of (Box3_OBB long_OBB) =
     [Vec3 (7 / 25) 0 (- (24 / 25)), Vec3 0 1 0, Vec3 (24 / 25) 0 (7 / 25)]"
  by (simp add: axes_of_def Box3_Axes_def split_beta OBB_Axes_fst long_OBB_facts)
     (simp add: long_OBB_def OBB_lit_def vec_defs)

lemma axes_of_small_OBB:
  "axes_of (Box3_OBB small_OBB) = [Vec3 (- 1) 0 0, Vec3 0 1 0, Vec3 0 0 (- 1)]"
  by (simp add: axes_of_def Box3_Axes_def split_beta OBB_Axes_fst small_OBB_facts)
     (simp add: small_OBB_def OBB_lit_def vec_defs)

lemma projection_of_long_OBB:
  "projection_of (Box3_OBB long_OBB) v = project_vertices v
    [Vec3 (94 / 25) 1 (- (233 / 25)), Vec3 (46 / 25) 1 (- (247 / 25)),
     Vec3 (94 / 25) (- 1) (- (233 / 25)), Vec3 (46 / 25) (- 1) (- (247 / 25)),
     Vec3 (- (46 / 25)) 1 (247 / 25), Vec3 (- (94 / 25)) 1 (233 / 25),
     Vec3 (- (46 / 25)) (- 1) (247 / 25), Vec3 (- (94 / 25)) (- 1) (233 / 25)]"
  by (simp add: projection_of_def Box3_ProjectOntoAxis_def OBB_ProjectOntoAxis_def split_beta
        long_OBB_facts OBB_Corners_fst)
     (simp add: long_OBB_def OBB_lit_def vec_defs)

lemma projection_of_small_OBB:
  "projection_of (Box3_OBB small_OBB) v = project_vertices v
    [Vec3 (5 / 2) (1 / 2) (1 / 2), Vec3 (5 / 2) (1 / 2) (3 / 2),
     Vec3 (5 / 2) (- (1 / 2)) (1 / 2), Vec3 (5 / 2) (- (1 / 2)) (3 / 2),
     Vec3 (7 / 2) (1 / 2) (1 / 2), Vec3 (7 / 2) (1 / 2) (3 / 2),
     Vec3 (7 / 2) (- (1 / 2)) (1 / 2), Vec3 (7 / 2) (- (1 / 2)) (3 / 2)]"
  by (simp add: projection_of_def Box3_ProjectOntoAxis_def OBB_ProjectOntoAxis_def split_beta
        small_OBB_facts OBB_Corners_fst)
     (simp add: small_OBB_def OBB_lit_def vec_defs)

lemma tested_axes_long_small:
  "tested_axes (Box3_OBB long_OBB) (Box3_OBB small_OBB) =
    [Vec3 (- 1) 0 0, Vec3 0 1 0, Vec3 0 0 (- 1),
     Vec3 (7 / 25) 0 (- (24 / 25)), Vec3 0 (- (24 / 25)) 0, Vec3 0 0 (- 1),
     Vec3 0 (7 / 25) 0]"
  by (simp add: tested_axes_def axes_of_long_OBB axes_of_small_OBB nth_lits Vec3_Cross_def)

lemma tested_axes_small_long:
  "tested_axes (Box3_OBB small_OBB) (Box3_OBB long_OBB) =
    [Vec3 (7 / 25) 0 (- (24 / 25)), Vec3 0 1 0, Vec3 (24 / 25) 0 (7 / 25),
     Vec3 (- 1) 0 0, Vec3 0 (24 / 25) 0, Vec3 (24 / 25) 0 (7 / 25),
     Vec3 0 (7 / 25) 0]"
  by (simp add: tested_axes_def axes_of_long_OBB axes_of_small_OBB nth_lits Vec3_Cross_def)

lemma project_step_min_max:
  "project_step axis vertex i iv =
     \<lparr>Interval_Min = min (Interval_Min iv) (Vec3_Dot axis (vertex ! i)),
      Interval_Max = max (Interval_Max iv) (Vec3_Dot axis (vertex ! i))\<rparr>"
  by (simp add: project_step_def Let_def min_def max_def)

lemma project_vertices_8:
  "project_vertices v [c0, c1, c2, c3, c4, c5, c6, c7] =
     \<lparr>Interval_Min = min (min (min (min (min (min (min (Vec3_Dot v c0) (Vec3_Dot v c1))
         (Vec3_Dot v c2)) (Vec3_Dot v c3)) (Vec3_Dot v c4)) (Vec3_Dot v c5)) (Vec3_Dot v c6))
         (Vec3_Dot v c7),
      Interval_Max = max (max (max (max (max (max (max (Vec3_Dot v c0) (Vec3_Dot v c1))
         (Vec3_Dot v c2)) (Vec3_Dot v c3)) (Vec3_Dot v c4)) (Vec3_Dot v c5)) (Vec3_Dot v c6))
         (Vec3_Dot v c7)\<rparr>"
  by (simp only: project_vertices_def Let_def List.fold_simps comp_apply id_apply
      project_step_min_max nth_lits Interval.simps)

lemmas project_eval = project_vertices_8 Vec3_Dot_def

lemma overlaps_long_small:
  "overlap_on (Box3_OBB long_OBB) (Box3_OBB small_OBB) (Vec3 (- 1) 0 0)"
  "overlap_on (Box3_OBB long_OBB) (Box3_OBB small_OBB) (Vec3 0 1 0)"
  "overlap_on (Box3_OBB long_OBB) (Box3_OBB small_OBB) (Vec3 0 0 (- 1))"
  "overlap_on (Box3_OBB long_OBB) (Box3_OBB small_OBB) (Vec3 (7 / 25) 0 (- (24 / 25)))"
  "overlap_on (Box3_OBB long_OBB) (Box3_OBB small_OBB) (Vec3 0 (- (24 / 25)) 0)"
  "overlap_on (Box3_OBB long_OBB) (Box3_OBB small_OBB) (Vec3 0 (7 / 25) 0)"
  unfolding overlap_on_def projection_of_long_OBB projection_of_small_OBB
  by (simp_all add: project_eval Overlaps_def)

lemma separated_long_small:
  "\<not> overlap_on (Box3_OBB long_OBB) (Box3_OBB small_OBB) (Vec3 (24 / 25) 0 (7 / 25))"
  unfolding overlap_on_def projection_of_long_OBB projection_of_small_OBB
  by (simp add: project_eval Overlaps_def)

lemma separated_small_long:
  "\<not> overlap_on (Box3_OBB small_OBB) (Box3_OBB long_OBB) (Vec3 (24 / 25) 0 (7 / 25))"
  unfolding overlap_on_def projection_of_long_OBB projection_of_small_OBB
  by (simp add: project_eval Overlaps_def)

lemma overlaps_small_long:
  "overlap_on (Box3_OBB small_OBB) (Box3_OBB long_OBB) (Vec3 (7 / 25) 0 (- (24 / 25)))"
  "overlap_on (Box3_OBB small_OBB) (Box3_OBB long_OBB) (Vec3 0 1 0)"
  unfolding overlap_on_def projection_of_long_OBB projection_of_small_OBB
  by (simp_all add: project_eval Overlaps_def)

lemma OBB_store_at:
  "OBB_store 0 = Box3_OBB long_OBB" "OBB_store (Suc 0) = Box3_OBB small_OBB"
  "arrays_ok (OBB_store 0)" "arrays_ok (OBB_store (Suc 0))"
  by (simp_all add: OBB_store_def long_OBB_facts small_OBB_facts)

lemma IntersectsBox3_long_small: "fst (IntersectsBox3 0 1 OBB_store) = Some True"
  using IntersectsBox3_tests[of OBB_store 0 1]
  by (simp add: OBB_store_at long_OBB_facts small_OBB_facts tested_axes_long_small
      overlaps_long_small)

lemma IntersectsBox3_small_long: "fst (IntersectsBox3 1 0 OBB_store) = Some False"
  using IntersectsBox3_tests[of OBB_store 1 0]
  by (simp add: OBB_store_at long_OBB_facts small_OBB_facts tested_axes_small_long
      overlaps_small_long separated_small_long)

lemma third_axis_long:
  "fst (call_Axes 0 OBB_store) ! 2 = Vec3 (24 / 25) 0 (7 / 25)"
  by (simp add: call_Axes_def split_beta OBB_store_at axes_of_long_OBB[unfolded axes_of_def] nth_lits)

lemma OverlapOnAxis_long_small:
  "\<not> fst (OverlapOnAxis 0 1 (Vec3 (24 / 25) 0 (7 / 25)) OBB_store)"
proof -
  have "store_rel (Box3_OBB long_OBB) (Box3_OBB small_OBB) 0 1 OBB_store"
    using OBB_store_at by (simp add: store_rel_def scratch_rel_refl)
  from OverlapOnAxis_pure[OF this] separated_long_small show ?thesis by simp
qed

lemma wf_OBB_store: "wf_Box3 (OBB_store 0)" "wf_Box3 (OBB_store 1)"
  by (simp_all add: OBB_store_def long_OBB_def small_OBB_def OBB_lit_def Vec3_Dot_def
      power2_eq_square)

text \<open>
  C1. The claim: \<^verbatim>\<open>IntersectsBox3(a, b)\<close> tests the three axes of \<open>a\<close>, the three axes of
  \<open>b\<close> and the nine cross products, and returns false when the projections fail to overlap
  on one of them. For \<open>a = long_OBB\<close> and \<open>b = small_OBB\<close> the projections do not overlap on
  the third axis of \<open>a\<close>, (24/25, 0, 7/25), and the function returns true: the inner loop
  header \<^verbatim>\<open>for j := 0; i < len(axesb); i++\<close> advances \<open>i\<close>, so the axes reached are those of
  \<open>b\<close>, the first axis of \<open>a\<close> and the cross products of the first axis of \<open>b\<close> with the
  three axes of \<open>a\<close> (lemma \<open>IntersectsBox3_tests\<close>).
\<close>

theorem IntersectsBox3_skips_axes:
  "fst (IntersectsBox3 0 1 OBB_store) = Some True \<and>
   fst (call_Axes 0 OBB_store) ! 2 = Vec3 (24 / 25) 0 (7 / 25) \<and>
   \<not> fst (OverlapOnAxis 0 1 (Vec3 (24 / 25) 0 (7 / 25)) OBB_store)"
  using IntersectsBox3_long_small third_axis_long OverlapOnAxis_long_small by simp

text \<open>
  C7. The claim: for well-formed boxes, \<^verbatim>\<open>IntersectsBox3(a, b)\<close> and
  \<^verbatim>\<open>IntersectsBox3(b, a)\<close> return the same boolean. For the well-formed boxes \<open>long_OBB\<close>
  and \<open>small_OBB\<close> the first call returns true and the second false: all three axes of the
  second argument are tested, only the first axis of the first argument.
\<close>

theorem IntersectsBox3_not_symmetric:
  "wf_Box3 (OBB_store 0) \<and> wf_Box3 (OBB_store 1) \<and>
   fst (IntersectsBox3 0 1 OBB_store) = Some True \<and>
   fst (IntersectsBox3 1 0 OBB_store) = Some False"
  using wf_OBB_store IntersectsBox3_long_small IntersectsBox3_small_long by simp


section \<open>IntersectsBox3 on two AABBs\<close>

lemma projection_of_AABB_lit:
  "Interval_Min (projection_of (Box3_AABB (AABB_lit p s)) v) \<le> 0 \<and>
   0 \<le> Interval_Max (projection_of (Box3_AABB (AABB_lit p s)) v)"
  by (simp add: projection_of_def Box3_ProjectOntoAxis_def AABB_ProjectOntoAxis_def split_beta
      AABB_Corners_lit project_vertices_8 Vec3_Dot_def min_le_iff_disj le_max_iff_disj)

lemma overlap_on_AABB_lits:
  "overlap_on (Box3_AABB (AABB_lit p s)) (Box3_AABB (AABB_lit p' s')) v"
  using projection_of_AABB_lit[of p s v] projection_of_AABB_lit[of p' s' v]
  by (simp add: overlap_on_def Overlaps_def)

lemma IntersectsBox3_AABB_lits:
  assumes "h a = Box3_AABB (AABB_lit p s)" "h b = Box3_AABB (AABB_lit p' s')"
  shows "fst (IntersectsBox3 a b h) = Some True"
  using IntersectsBox3_tests[of h a b] assms
  by (simp add: AABB_lit_def list_all_iff overlap_on_AABB_lits[unfolded AABB_lit_def])

lemma AABB_Min_Max_lit_5:
  "AABB_Min (AABB_lit (Vec3 0 0 5) (Vec3 2 2 2)) = Vec3 (- 2) (- 2) 3"
  "AABB_Max (AABB_lit (Vec3 0 0 5) (Vec3 2 2 2)) = Vec3 2 2 7"
  by (simp_all add: AABB_Min_def AABB_Max_def AABB_lit_def Vec3_Add_def Vec3_Sub_def
      min32_def max32_def)

text \<open>
  C2. The claim: on two AABBs, \<^verbatim>\<open>IntersectsBox3\<close> returns what \<^verbatim>\<open>IntersectsAABB\<close> returns.
  For the boxes of halfSize (2,2,2) at (0,0,0) and at (0,0,5), \<^verbatim>\<open>IntersectsAABB\<close> returns
  false and \<^verbatim>\<open>IntersectsBox3\<close> returns true: \<^verbatim>\<open>AABB.Corners\<close> fills slot 0 only, every
  projection of an AABB contains 0, and no axis separates two AABBs
  (lemma \<open>IntersectsBox3_AABB_lits\<close>).
\<close>

theorem IntersectsBox3_AABB_disagrees:
  "fst (IntersectsBox3 0 1 AABB_store) = Some True \<and>
   \<not> AABB_IntersectsAABB (AABB_lit (Vec3 0 0 0) (Vec3 2 2 2)) (AABB_lit (Vec3 0 0 5) (Vec3 2 2 2))"
proof -
  have "fst (IntersectsBox3 0 1 AABB_store) = Some True"
    by (rule IntersectsBox3_AABB_lits) (simp_all add: AABB_store_def)
  moreover have "\<not> AABB_IntersectsAABB (AABB_lit (Vec3 0 0 0) (Vec3 2 2 2))
                     (AABB_lit (Vec3 0 0 5) (Vec3 2 2 2))"
    by (simp add: AABB_IntersectsAABB_def AABB_Min_lit_2 AABB_Max_lit_2 AABB_Min_Max_lit_5)
  ultimately show ?thesis by simp
qed

section \<open>AABB.MTVAABB\<close>

lemma AABB_lit_sel: "AABB_Position (AABB_lit p s) = p" "AABB_Size (AABB_lit p s) = s"
  by (simp_all add: AABB_lit_def)

lemma AABB_Min_Max_lit_1:
  "AABB_Min (AABB_lit (Vec3 1 1 1) (Vec3 2 2 2)) = Vec3 (- 1) (- 1) (- 1)"
  "AABB_Max (AABB_lit (Vec3 1 1 1) (Vec3 2 2 2)) = Vec3 3 3 3"
  by (simp_all add: AABB_Min_def AABB_Max_def AABB_lit_def Vec3_Add_def Vec3_Sub_def
      min32_def max32_def)

lemma AABB_Min_Max_lit_m2:
  "AABB_Min (AABB_lit (Vec3 (- 2) 1 1) (Vec3 2 2 2)) = Vec3 (- 4) (- 1) (- 1)"
  "AABB_Max (AABB_lit (Vec3 (- 2) 1 1) (Vec3 2 2 2)) = Vec3 0 3 3"
  by (simp_all add: AABB_Min_def AABB_Max_def AABB_lit_def Vec3_Add_def Vec3_Sub_def
      min32_def max32_def)

lemma MTVAABB_steps_example:
  "MTVAABB_step (AABB_lit (Vec3 0 0 0) (Vec3 2 2 2)) (AABB_lit (Vec3 1 1 1) (Vec3 2 2 2)) 0
      (Vec3 0 0 0, maxFloat32, 1) = (X3, 3, - 1)"
  "MTVAABB_step (AABB_lit (Vec3 0 0 0) (Vec3 2 2 2)) (AABB_lit (Vec3 1 1 1) (Vec3 2 2 2)) (Suc 0)
      (X3, 3, - 1) = (X3, 3, - 1)"
  "MTVAABB_step (AABB_lit (Vec3 0 0 0) (Vec3 2 2 2)) (AABB_lit (Vec3 1 1 1) (Vec3 2 2 2)) 2
      (X3, 3, - 1) = (X3, 3, - 1)"
  by (simp_all add: MTVAABB_step_def AABB_Min_lit_2 AABB_Max_lit_2 AABB_Min_Max_lit_1
      Vec3_idx_def GetOverlap_def Overlaps_def min32_def max32_def maxFloat32_def AABB_lit_sel
      Let_def X3_def)

lemma MTVAABB_example:
  "AABB_MTVAABB (AABB_lit (Vec3 0 0 0) (Vec3 2 2 2)) (AABB_lit (Vec3 1 1 1) (Vec3 2 2 2))
     = (True, Vec3 (- 3) 0 0)"
  by (simp add: AABB_MTVAABB_def AABB_Min_lit_2 AABB_Max_lit_2 AABB_Min_Max_lit_1
      MTVAABB_steps_example Vec3_Mul_def Let_def) (simp add: X3_def)

lemma MTVAABB_steps_after:
  "MTVAABB_step (AABB_lit (Vec3 0 0 0) (Vec3 2 2 2)) (AABB_lit (Vec3 (- 2) 1 1) (Vec3 2 2 2)) 0
      (Vec3 0 0 0, maxFloat32, 1) = (X3, 2, 1)"
  "MTVAABB_step (AABB_lit (Vec3 0 0 0) (Vec3 2 2 2)) (AABB_lit (Vec3 (- 2) 1 1) (Vec3 2 2 2)) (Suc 0)
      (X3, 2, 1) = (X3, 2, 1)"
  "MTVAABB_step (AABB_lit (Vec3 0 0 0) (Vec3 2 2 2)) (AABB_lit (Vec3 (- 2) 1 1) (Vec3 2 2 2)) 2
      (X3, 2, 1) = (X3, 2, 1)"
  by (simp_all add: MTVAABB_step_def AABB_Min_lit_2 AABB_Max_lit_2 AABB_Min_Max_lit_m2
      Vec3_idx_def GetOverlap_def Overlaps_def min32_def max32_def maxFloat32_def AABB_lit_sel
      Let_def X3_def)

lemma MTVAABB_after:
  "AABB_MTVAABB (AABB_lit (Vec3 0 0 0) (Vec3 2 2 2)) (AABB_lit (Vec3 (- 2) 1 1) (Vec3 2 2 2))
     = (True, Vec3 2 0 0)"
  by (simp add: AABB_MTVAABB_def AABB_Min_lit_2 AABB_Max_lit_2 AABB_Min_Max_lit_m2
      MTVAABB_steps_after Vec3_Mul_def Let_def) (simp add: X3_def)

text \<open>
  C4. The claim: for \<open>a\<close> at (0,0,0) and \<open>b\<close> at (1,1,1), both of halfSize (2,2,2), moving
  \<open>b\<close> by the vector \<^verbatim>\<open>a.MTVAABB(b)\<close> returns leaves the boxes without overlap. The function
  returns (-3,0,0); \<open>b\<close> moved by it is at (-2,1,1), where \<open>a\<close> and \<open>b\<close> still intersect and
  \<^verbatim>\<open>MTVAABB\<close> reports an overlap of 2, which is not close to 0. The sign is -1 when the
  position of \<open>a\<close> is below that of \<open>b\<close>, which moves \<open>b\<close> towards \<open>a\<close>.
\<close>

theorem MTVAABB_moves_b_into_a:
  "AABB_MTVAABB (AABB_lit (Vec3 0 0 0) (Vec3 2 2 2)) (AABB_lit (Vec3 1 1 1) (Vec3 2 2 2))
     = (True, Vec3 (- 3) 0 0)
   \<and> Vec3_Add (Vec3 1 1 1) (Vec3 (- 3) 0 0) = Vec3 (- 2) 1 1
   \<and> AABB_IntersectsAABB (AABB_lit (Vec3 0 0 0) (Vec3 2 2 2)) (AABB_lit (Vec3 (- 2) 1 1) (Vec3 2 2 2))
   \<and> AABB_MTVAABB (AABB_lit (Vec3 0 0 0) (Vec3 2 2 2)) (AABB_lit (Vec3 (- 2) 1 1) (Vec3 2 2 2))
     = (True, Vec3 2 0 0)
   \<and> \<not> cmp 2 0"
  by (simp add: MTVAABB_example MTVAABB_after AABB_IntersectsAABB_def AABB_Min_lit_2
      AABB_Max_lit_2 AABB_Min_Max_lit_m2 Vec3_Add_def cmp_def abs32_def max32_def)

section \<open>The OBB with the identity orientation\<close>

lemma replicate_7: "replicate 7 x = [x, x, x, x, x, x, x]"
  by (simp add: eval_nat_numeral)

lemma AABB_scratch_zero_lit: "AABB_scratch_zero (AABB_lit p s)"
  by (simp add: AABB_scratch_zero_def AABB_lit_def replicate_8 replicate_7)

lemma AABB_Corners_scratch_zero:
  "AABB_scratch_zero a \<Longrightarrow>
   fst (AABB_Corners a) =
     Vec3 (v0 (AABB_Max a)) (v1 (AABB_Min a)) (v2 (AABB_Min a)) # replicate 7 (Vec3 0 0 0)"
  by (cases "AABB_corners a") (simp_all add: AABB_scratch_zero_def AABB_Corners_fst replicate_7)

lemma AABB_scratch_zero_kept:
  "AABB_scratch_zero a \<Longrightarrow> AABB_scratch_zero (snd (AABB_Corners a))"
  "AABB_scratch_zero a \<Longrightarrow> AABB_scratch_zero (snd (AABB_ProjectOntoAxis a v))"
  by (simp_all add: AABB_ProjectOntoAxis_def split_beta AABB_Corners_snd
      AABB_Corners_scratch_zero AABB_scratch_zero_def)

lemma AABB_Corners_same:
  assumes "AABB_Position a = p" "AABB_Size a = s" "AABB_scratch_zero a"
  shows "fst (AABB_Corners a) = fst (AABB_Corners (AABB_lit p s))"
proof -
  have "AABB_Min a = AABB_Min (AABB_lit p s)" "AABB_Max a = AABB_Max (AABB_lit p s)"
    using assms by (simp_all add: AABB_Min_def AABB_Max_def AABB_lit_def)
  then show ?thesis
    using assms(3) by (simp add: AABB_Corners_scratch_zero AABB_scratch_zero_lit)
qed

text \<open>
  C6, amended. For every OBB whose orientation is the identity quaternion and every AABB
  with the same position and halfSize whose scratch slots 1 to 7 hold the zero vector (as
  they do in every AABB made by a composite literal, before and after any method call):
  \<^verbatim>\<open>Axes\<close>, \<^verbatim>\<open>Corners\<close>, \<^verbatim>\<open>Normals\<close>, \<^verbatim>\<open>ProjectOntoAxis\<close> and \<^verbatim>\<open>ContainsPoint3\<close> return
  identical results for every input. Nothing is said about \<^verbatim>\<open>Raycast\<close>.
\<close>

theorem OBB_identity_as_AABB:
  assumes "OBB_Orientation o' = QuatIdent"
    and "AABB_Position a = OBB_Position o'" and "AABB_Size a = OBB_Size o'"
    and "AABB_scratch_zero a"
  shows "fst (OBB_Axes o') = AABB_Axes a \<and>
         fst (OBB_Corners o') = fst (AABB_Corners a) \<and>
         OBB_Normals o' = AABB_Normals a \<and>
         fst (OBB_ProjectOntoAxis o' axis) = fst (AABB_ProjectOntoAxis a axis) \<and>
         fst (OBB_ContainsPoint3 o' pt) = AABB_ContainsPoint3 a pt"
proof -
  have c: "fst (AABB_Corners a) = fst (AABB_Corners (AABB_lit (OBB_Position o') (OBB_Size o')))"
    using assms by (intro AABB_Corners_same) simp_all
  have 1: "fst (OBB_Axes o') = AABB_Axes a"
    using assms by (simp add: OBB_Axes_def AABB_Axes_def)
  have 2: "fst (OBB_Corners o') = fst (AABB_Corners a)"
    using assms c by (simp add: OBB_Corners_def)
  have 3: "OBB_Normals o' = AABB_Normals a"
    using assms by (simp add: OBB_Normals_def AABB_Normals_def)
  have 4: "fst (OBB_ProjectOntoAxis o' axis) = fst (AABB_ProjectOntoAxis a axis)"
    using assms c by (simp add: OBB_ProjectOntoAxis_def AABB_ProjectOntoAxis_def split_beta)
  have 5: "fst (OBB_ContainsPoint3 o' pt) = AABB_ContainsPoint3 a pt"
    using assms
    by (simp add: OBB_ContainsPoint3_def AABB_ContainsPoint3_def AABB_Min_def AABB_Max_def
        AABB_lit_def)
  from 1 2 3 4 5 show ?thesis by simp
qed

theorem OBB_identity_as_AABB_witness:
  "OBB_Orientation (OBB_lit (Vec3 0 0 0) (Vec3 2 2 2) QuatIdent) = QuatIdent \<and>
   AABB_scratch_zero (AABB_lit (Vec3 0 0 0) (Vec3 2 2 2)) \<and>
   fst (OBB_Corners (OBB_lit (Vec3 0 0 0) (Vec3 2 2 2) QuatIdent))
     = fst (AABB_Corners (AABB_lit (Vec3 0 0 0) (Vec3 2 2 2))) \<and>
   fst (OBB_ProjectOntoAxis (OBB_lit (Vec3 0 0 0) (Vec3 2 2 2) QuatIdent) (Vec3 1 0 0))
     = fst (AABB_ProjectOntoAxis (AABB_lit (Vec3 0 0 0) (Vec3 2 2 2)) (Vec3 1 0 0)) \<and>
   fst (OBB_ContainsPoint3 (OBB_lit (Vec3 0 0 0) (Vec3 2 2 2) QuatIdent) (Vec3 2 2 2))
     = AABB_ContainsPoint3 (AABB_lit (Vec3 0 0 0) (Vec3 2 2 2)) (Vec3 2 2 2)"
  using OBB_identity_as_AABB[of "OBB_lit (Vec3 0 0 0) (Vec3 2 2 2) QuatIdent"
      "AABB_lit (Vec3 0 0 0) (Vec3 2 2 2)" "Vec3 1 0 0" "Vec3 2 2 2"]
    AABB_scratch_zero_lit[of "Vec3 0 0 0" "Vec3 2 2 2"]
  by (simp add: OBB_lit_def AABB_lit_sel)

lemma OBB_Raycast_side:
  "fst (OBB_Raycast (OBB_lit (Vec3 0 0 0) (Vec3 2 2 2) QuatIdent) side_ray)
     = (res0\<lparr>RaycastResult_Fail := RaycastFailOutsideBounds\<rparr>, False)"
proof -
  have g: "OBB_Raycast_guard [0, 1, 0] [- 5, 0, 0] (Vec3 2 2 2) = None"
    by (simp add: OBB_Raycast_guard_def nth_lits cmp_def abs32_def)
  show ?thesis
    by (simp add: OBB_Raycast_def OBB_Axes_def OBB_lit_def AABB_Axes_def aabbAxes_def
        side_ray_def nth_lits X3_def Y3_def Z3_def Vec3_Dot_def Vec3_Sub_def g)
qed

lemma AABB_Raycast_t_side:
  "AABB_Raycast_t (AABB_lit (Vec3 0 0 0) (Vec3 2 2 2)) side_ray
     = [- 7 * 2 ^ 149, - 3 * 2 ^ 149, - 2, 2, - 2 * 2 ^ 149, 2 * 2 ^ 149]"
  by (simp add: AABB_Raycast_t_def AABB_Min_lit_2 AABB_Max_lit_2 nonzero_def
      SmallestNonzeroFloat32_def side_ray_def)

lemma slab_tmax_side:
  "slab_tmax (AABB_Raycast_t (AABB_lit (Vec3 0 0 0) (Vec3 2 2 2)) side_ray) < 0"
  by (simp add: AABB_Raycast_t_side slab_tmax_def nth_lits min32_def max32_def)

lemma AABB_Raycast_side:
  "AABB_Raycast (AABB_lit (Vec3 0 0 0) (Vec3 2 2 2)) side_ray
     = (res0\<lparr>RaycastResult_Fail := RaycastFailTargetBehindRayOrigin\<rparr>, False)"
  using slab_tmax_side by (simp add: AABB_Raycast_def Let_def)

text \<open>
  C6, as claimed: \<^verbatim>\<open>Raycast\<close> returns the same pair for the identity OBB and the AABB, for
  every ray. For the box of halfSize (2,2,2) at the origin and the ray from (5,0,0) in
  direction (0,1,0) it does not: \<^verbatim>\<open>OBB.Raycast\<close> returns at its guard for a ray parallel
  to a slab, with \<^verbatim>\<open>OutsideBounds\<close>; \<^verbatim>\<open>AABB.Raycast\<close> has no such guard and fails with
  \<^verbatim>\<open>TargetBehindRayOrigin\<close>.
\<close>

theorem OBB_Raycast_identity_differs:
  "fst (OBB_Raycast (OBB_lit (Vec3 0 0 0) (Vec3 2 2 2) QuatIdent)
          \<lparr>Ray3_Origin = Vec3 5 0 0, Ray3_Direction = Vec3 0 1 0\<rparr>)
     \<noteq> AABB_Raycast (AABB_lit (Vec3 0 0 0) (Vec3 2 2 2))
          \<lparr>Ray3_Origin = Vec3 5 0 0, Ray3_Direction = Vec3 0 1 0\<rparr>"
  using OBB_Raycast_side AABB_Raycast_side by (simp add: side_ray_def res0_def)

end
